theory Spec2Isabelle
  imports Main
begin

chapter \<open>The HTML-to-text processors of the reader repository\<close>

text \<open>
  The repository holds two variants of \<open>processHtml\<close>: the enhanced processor
  (\<^verbatim>\<open>src/local-playground/enhanced-html-processor.ts\<close>, taking a format or an options
  object) and the minimal processor (\<^verbatim>\<open>src/unnamed/part_000\<close>, taking a format only).
  Both are embedded below, each from its own source text; the two files share the
  function \<open>cleanRedundantEmptyLines\<close> verbatim.

  The libraries the code calls (the linkedom parser and its DOM, the \<open>URL\<close> constructor,
  Readability, Turndown) are not part of the repository. They enter the model as the
  fields of a record of collaborators; an exception they may raise is the \<open>Inl\<close> branch
  of their result, and every \<^verbatim>\<open>try\<close>/\<^verbatim>\<open>catch\<close> of the source is a case distinction on it.
  A call that stands outside every \<^verbatim>\<open>try\<close> block passes its exception on to the caller
  of \<open>processHtml\<close>.
\<close>

section \<open>Strings\<close>

text \<open>
  A JavaScript string is modelled as a \<^typ>\<open>string\<close>, one \<^typ>\<open>char\<close> per code unit
  below 256. \<open>isWhiteSpace\<close> is what \<^verbatim>\<open>String.prototype.trim\<close> strips and what the
  regular expression class \<^verbatim>\<open>\s\<close> matches in that range: TAB, LF, VT, FF, CR, SPACE
  and NBSP.
\<close>

abbreviation LF :: char where "LF \<equiv> CHR 0x0A"
abbreviation CR :: char where "CR \<equiv> CHR 0x0D"

definition isWhiteSpace :: "char \<Rightarrow> bool" where
  "isWhiteSpace c =
     (c \<in> set [CHR 0x09, CHR 0x0A, CHR 0x0B, CHR 0x0C, CHR 0x0D, CHR 0x20, CHR 0xA0])"

definition trim :: "string \<Rightarrow> string" where
  "trim s = rev (dropWhile isWhiteSpace (rev (dropWhile isWhiteSpace s)))"

text \<open>\<^verbatim>\<open>Boolean(s)\<close> of a string: true unless the string is empty.\<close>

definition Boolean :: "string \<Rightarrow> bool" where
  "Boolean s = (s \<noteq> [])"

definition startsWith :: "string \<Rightarrow> string \<Rightarrow> bool" where
  "startsWith s p = (take (length p) s = p)"

text \<open>\<^verbatim>\<open>s.replace(/\s+/g, ' ')\<close>: every maximal run of white space becomes one space.\<close>

fun collapseRuns :: "bool \<Rightarrow> string \<Rightarrow> string" where
  "collapseRuns inRun [] = []"
| "collapseRuns inRun (c # cs) =
     (if isWhiteSpace c
      then (if inRun then collapseRuns True cs else CHR '' '' # collapseRuns True cs)
      else c # collapseRuns False cs)"

definition collapseWhitespace :: "string \<Rightarrow> string" where
  "collapseWhitespace s = collapseRuns False s"

text \<open>\<^verbatim>\<open>s.toLowerCase()\<close> on code units below 256.\<close>

definition toLowerChar :: "char \<Rightarrow> char" where
  "toLowerChar c =
     (let n = (of_char c :: nat)
      in if (65 \<le> n \<and> n \<le> 90) \<or> (192 \<le> n \<and> n \<le> 222 \<and> n \<noteq> 215)
         then char_of (n + 32) else c)"

definition toLowerCase :: "string \<Rightarrow> string" where
  "toLowerCase s = map toLowerChar s"

section \<open>The whitespace normalizer\<close>

text \<open>
  \<^verbatim>\<open>text.split(/\r?\n/g)\<close>: scanning from the left, a line ends at LF, or at CR
  immediately followed by LF; the separator is dropped. A CR that is not directly
  followed by LF stays in its line. The empty string splits into one empty line.
\<close>

fun splitLines :: "string \<Rightarrow> string list" where
  "splitLines [] = [[]]"
| "splitLines [c] = (if c = LF then [[], []] else [[c]])"
| "splitLines (c # d # cs) =
     (if c = LF then [] # splitLines (d # cs)
      else if c = CR \<and> d = LF then [] # splitLines cs
      else (case splitLines (d # cs) of
              [] \<Rightarrow> [[c]]
            | l # ls \<Rightarrow> (c # l) # ls))"

text \<open>\<^verbatim>\<open>lines.join('\n')\<close>.\<close>

fun joinLines :: "string list \<Rightarrow> string" where
  "joinLines [] = []"
| "joinLines [l] = l"
| "joinLines (l # m # ls) = l @ LF # joinLines (m # ls)"

text \<open>
  \<^verbatim>\<open>mappedFlag[i]\<close>: reading outside the array (index \<open>-1\<close> for the first line) yields
  \<^verbatim>\<open>undefined\<close>, which is falsy.
\<close>

definition flagAt :: "bool list \<Rightarrow> int \<Rightarrow> bool" where
  "flagAt flags i = (if 0 \<le> i \<and> i < int (length flags) then flags ! nat i else False)"

text \<open>\<^verbatim>\<open>xs.filter((x, i) => p(x, i))\<close>, the callback receiving element and index.\<close>

fun filterIdx :: "('a \<Rightarrow> nat \<Rightarrow> bool) \<Rightarrow> nat \<Rightarrow> 'a list \<Rightarrow> 'a list" where
  "filterIdx p i [] = []"
| "filterIdx p i (x # xs) =
     (if p x i then x # filterIdx p (Suc i) xs else filterIdx p (Suc i) xs)"

definition cleanRedundantEmptyLines :: "string \<Rightarrow> string" where
  "cleanRedundantEmptyLines s =
     (let lines = splitLines s;
          mappedFlag = map (\<lambda>line. Boolean (trim line)) lines
      in joinLines
           (filterIdx (\<lambda>_ i. flagAt mappedFlag (int i) \<or> flagAt mappedFlag (int i - 1)) 0 lines))"

text \<open>
  Vocabulary for the statements about the normalizer: the lines the filter keeps, a
  significant line, a line that ends in a carriage return.
\<close>

definition keptLines :: "string list \<Rightarrow> string list" where
  "keptLines lines =
     (let mappedFlag = map (\<lambda>line. Boolean (trim line)) lines
      in filterIdx (\<lambda>_ i. flagAt mappedFlag (int i) \<or> flagAt mappedFlag (int i - 1)) 0 lines)"

text \<open>The lines of a string when only LF separates lines.\<close>

fun splitAtLF :: "string \<Rightarrow> string list" where
  "splitAtLF [] = [[]]"
| "splitAtLF (c # cs) =
     (if c = LF then [] # splitAtLF cs
      else (case splitAtLF cs of [] \<Rightarrow> [[c]] | l # ls \<Rightarrow> (c # l) # ls))"

definition significant :: "string \<Rightarrow> bool" where
  "significant l = Boolean (trim l)"

definition endsWithCR :: "string \<Rightarrow> bool" where
  "endsWithCR l = (l \<noteq> [] \<and> last l = CR)"

definition stripCR :: "string \<Rightarrow> string" where
  "stripCR l = (if l \<noteq> [] \<and> last l = CR then butlast l else l)"

text \<open>
  Proof devices: the index filter as a recursion that remembers the flag of the previous
  line, the invariant of its output, and what re-splitting joined lines does to them.
\<close>

fun keepRec :: "bool \<Rightarrow> string list \<Rightarrow> string list" where
  "keepRec prev [] = []"
| "keepRec prev (l # ls) =
     (if significant l \<or> prev then l # keepRec (significant l) ls
      else keepRec (significant l) ls)"

fun wellSpaced :: "bool \<Rightarrow> string list \<Rightarrow> bool" where
  "wellSpaced prev [] = True"
| "wellSpaced prev (l # ls) = ((significant l \<or> prev) \<and> wellSpaced (significant l) ls)"

fun stripInner :: "string list \<Rightarrow> string list" where
  "stripInner [] = []"
| "stripInner [l] = [l]"
| "stripInner (l # m # ls) = stripCR l # stripInner (m # ls)"

section \<open>The document tree\<close>

text \<open>
  A parsed document is the list of the child nodes of its \<open>Document\<close> node. Element and
  attribute names are stored as the parser delivers them (lower case for HTML).
  Attributes keep their order; \<open>getAttribute\<close> returns the first one of that name.
\<close>

type_synonym attributes = "(string \<times> string) list"

datatype node =
    Element string attributes "node list"
  | TextNode string
  | CommentNode string

type_synonym document = "node list"

fun isElement :: "node \<Rightarrow> bool" where
  "isElement (Element t a cs) = True"
| "isElement n = False"

fun isComment :: "node \<Rightarrow> bool" where
  "isComment (CommentNode s) = True"
| "isComment n = False"

fun tagName :: "node \<Rightarrow> string" where
  "tagName (Element t a cs) = t"
| "tagName n = []"

fun attributesOf :: "node \<Rightarrow> attributes" where
  "attributesOf (Element t a cs) = a"
| "attributesOf n = []"

fun childNodes :: "node \<Rightarrow> node list" where
  "childNodes (Element t a cs) = cs"
| "childNodes n = []"

definition getAttribute :: "node \<Rightarrow> string \<Rightarrow> string option" where
  "getAttribute n name = map_of (attributesOf n) name"

definition hasAttribute :: "node \<Rightarrow> string \<Rightarrow> bool" where
  "hasAttribute n name = (name \<in> fst ` set (attributesOf n))"

text \<open>\<^verbatim>\<open>el.setAttribute(name, v)\<close>: overwrite in place, or append a new attribute.\<close>

fun setAttr :: "string \<Rightarrow> string \<Rightarrow> attributes \<Rightarrow> attributes" where
  "setAttr name v [] = [(name, v)]"
| "setAttr name v ((k, w) # as) = (if k = name then (k, v) # as else (k, w) # setAttr name v as)"

text \<open>The nodes of a subtree in document order (pre-order), the root first.\<close>

fun subtree :: "node \<Rightarrow> node list" where
  "subtree (Element t a cs) = Element t a cs # concat (map subtree cs)"
| "subtree n = [n]"

definition allNodes :: "node list \<Rightarrow> node list" where
  "allNodes ns = concat (map subtree ns)"

text \<open>
  \<open>querySelectorAll\<close> with one of the selectors written in the source. Each of them is a
  list of compound selectors over the tag name and the attributes of the element alone,
  so it is a predicate on the element; the result is in document order.
  \<open>selectAll p doc\<close> is \<^verbatim>\<open>document.querySelectorAll(sel)\<close>, \<open>selectWithin p el\<close> is
  \<^verbatim>\<open>el.querySelectorAll(sel)\<close> (descendants only).
\<close>

definition selectAll :: "(node \<Rightarrow> bool) \<Rightarrow> node list \<Rightarrow> node list" where
  "selectAll p ns = filter (\<lambda>n. isElement n \<and> p n) (allNodes ns)"

definition selectWithin :: "(node \<Rightarrow> bool) \<Rightarrow> node \<Rightarrow> node list" where
  "selectWithin p el = selectAll p (childNodes el)"

text \<open>\<open>textContent\<close> of a node: the data of its text descendants, concatenated.\<close>

fun textContent :: "node \<Rightarrow> string" where
  "textContent (Element t a cs) = concat (map textContent cs)"
| "textContent (TextNode s) = s"
| "textContent (CommentNode s) = []"

text \<open>
  \<^verbatim>\<open>querySelectorAll(sel).forEach(el => el.remove())\<close>: every node satisfying \<open>p\<close> leaves
  the tree, with its subtree.
\<close>

fun pruneNode :: "(node \<Rightarrow> bool) \<Rightarrow> node \<Rightarrow> node" where
  "pruneNode p (Element t a cs) = Element t a (map (pruneNode p) (filter (\<lambda>c. \<not> p c) cs))"
| "pruneNode p n = n"

definition removeAll :: "(node \<Rightarrow> bool) \<Rightarrow> node list \<Rightarrow> node list" where
  "removeAll p ns = map (pruneNode p) (filter (\<lambda>c. \<not> p c) ns)"

text \<open>
  A loop over a static node list that replaces the content of the elements it selects:
  \<open>f\<close> returns the rewritten element, or \<open>None\<close> for an element it leaves alone. The node
  list was taken before the loop, so new content is not visited, and an element inside
  replaced content is detached from the document.
\<close>

fun rewriteNode :: "(node \<Rightarrow> node option) \<Rightarrow> node \<Rightarrow> node" where
  "rewriteNode f (Element t a cs) =
     (case f (Element t a cs) of
        Some n \<Rightarrow> n
      | None \<Rightarrow> Element t a (map (rewriteNode f) cs))"
| "rewriteNode f n = n"

text \<open>A loop over all elements that changes attributes only.\<close>

fun mapAttributes :: "(attributes \<Rightarrow> attributes) \<Rightarrow> node \<Rightarrow> node" where
  "mapAttributes f (Element t a cs) = Element t (f a) (map (mapAttributes f) cs)"
| "mapAttributes f n = n"

text \<open>
  Nodes selected by a caller's selector are identified by their position in document
  order. \<open>removeAtPositions ps k ns\<close> removes the nodes whose position is in \<open>ps\<close> from
  the forest \<open>ns\<close>, whose first node has position \<open>k\<close>; it also returns the position
  after the forest.
\<close>

fun removeAtPositions :: "nat list \<Rightarrow> nat \<Rightarrow> node list \<Rightarrow> node list \<times> nat" where
  "removeAtPositions ps k [] = ([], k)"
| "removeAtPositions ps k (Element t a cs # ns) =
     (let (cs', k') = removeAtPositions ps (Suc k) cs;
          (ns', k'') = removeAtPositions ps k' ns
      in (if k \<in> set ps then ns' else Element t a cs' # ns', k''))"
| "removeAtPositions ps k (n # ns) =
     (let (ns', k') = removeAtPositions ps (Suc k) ns
      in (if k \<in> set ps then ns' else n # ns', k'))"

section \<open>Errors and collaborators\<close>

datatype jsError = JsError string

datatype FormatOption = Markdown | PlainText

text \<open>
  What Readability's \<open>parse\<close> returns when it returns an object; an absent or \<open>null\<close> field
  is the empty string (both are falsy, and the code only tests their truth).
\<close>

record article =
  articleTitle :: string
  articleContent :: string

text \<open>
  The Turndown service as the two files set it up. Both use fenced code blocks,
  preformatted code, ATX headings and inlined links. The minimal file adds the rule
  \<open>remove-empty-paragraphs\<close>; the enhanced file installs the GFM plugins and the rules
  \<open>remove-irrelevant\<close>, \<open>remove-empty-paragraphs\<close>, \<open>improved-code\<close> and \<open>improved-links\<close>, the
  last of which reads \<open>options.baseUrl\<close>. The rules run inside \<open>turndown\<close>, hence inside
  the \<^verbatim>\<open>try\<close> block around it.
\<close>

datatype turndownSetup = MinimalRules | EnhancedRules "string option"

record collaborators =
  parseHTML :: "string \<Rightarrow> document"
  documentTitle :: "document \<Rightarrow> jsError + string \<times> document"
  documentHead :: "document \<Rightarrow> jsError + node option \<times> document"
  documentBody :: "document \<Rightarrow> jsError + node \<times> document"
  commentWalk :: "document \<Rightarrow> jsError + nat list"
  parseFragment :: "string \<Rightarrow> node list"
  serialize :: "node list \<Rightarrow> string"
  querySelectorAll :: "string \<Rightarrow> document \<Rightarrow> jsError + nat list"
  newURL :: "string \<Rightarrow> string \<Rightarrow> jsError + string"
  readabilityParse :: "document \<Rightarrow> jsError + article option"
  turndown :: "turndownSetup \<Rightarrow> string \<Rightarrow> jsError + string"

text \<open>
  \<^item> \<open>parseHTML env html\<close>: \<^verbatim>\<open>parseHTML(html).window.document\<close>.
  \<^item> \<open>documentTitle\<close>, \<open>documentHead\<close>, \<open>documentBody\<close>: the getters \<^verbatim>\<open>document.title\<close>,
    \<^verbatim>\<open>document.head\<close> (the source guards its value with \<^verbatim>\<open>?.\<close>) and \<^verbatim>\<open>document.body\<close>.
    A getter of the DOM library may throw (linkedom's do when the document has no root
    element), and it may change the tree (linkedom's insert a \<open>head\<close> or \<open>body\<close> element
    that is missing): the result is the exception, or the value with the document as
    the getter leaves it.
  \<^item> \<open>commentWalk env doc\<close>: \<^verbatim>\<open>document.createTreeWalker(document, 0x80)\<close> and the nodes its
    \<^verbatim>\<open>nextNode()\<close> yields, as positions in document order, or the exception of creating
    the walker.
  \<^item> \<open>parseFragment env s\<close>: the children an element has after \<^verbatim>\<open>el.innerHTML = s\<close>;
    \<open>serialize env cs\<close>: \<^verbatim>\<open>el.innerHTML\<close> of an element with children \<open>cs\<close>.
  \<^item> \<open>querySelectorAll env sel doc\<close>: \<^verbatim>\<open>document.querySelectorAll(sel)\<close> for a selector
    supplied by the caller: the positions of the matches in document order, or the
    exception the selector engine raises for a selector it cannot parse.
  \<^item> \<open>newURL env u base\<close>: \<^verbatim>\<open>new URL(u, base).toString()\<close>, or the exception.
  \<^item> \<open>readabilityParse env doc\<close>: \<^verbatim>\<open>new Readability(doc.cloneNode(true)).parse()\<close>:
    an article, \<open>null\<close>, or an exception.
  \<^item> \<open>turndown env setup markup\<close>: \<^verbatim>\<open>turndownService.turndown(markup)\<close>, or the exception.
\<close>

definition bindE :: "'e + 'a \<Rightarrow> ('a \<Rightarrow> 'e + 'b) \<Rightarrow> 'e + 'b" where
  "bindE m f = (case m of Inl e \<Rightarrow> Inl e | Inr x \<Rightarrow> f x)"

text \<open>The first element child of the document; \<open>None\<close> is JavaScript's \<open>null\<close>.\<close>

definition documentElement :: "document \<Rightarrow> node option" where
  "documentElement doc = find isElement doc"

section \<open>The enhanced processor\<close>

datatype selectors = OneSelector string | ManySelectors "string list"

record ProcessingOptions =
  format :: "FormatOption option"
  baseUrl :: "string option"
  trackPerformance :: "bool option"
  targetSelector :: "selectors option"
  removeSelector :: "selectors option"
  removeComments :: "bool option"
  withShadowDom :: "bool option"
  withIframe :: "bool option"

datatype formatOrOptions = Format FormatOption | Options ProcessingOptions

text \<open>
  The result. The optional \<open>performance\<close> field holds wall-clock durations read from
  \<^verbatim>\<open>performance.now()\<close>; it is left out of the model, as are the two \<^verbatim>\<open>console.warn\<close>
  calls.
\<close>

record ProcessedHTML =
  content :: string
  title :: string
  description :: string
  links :: "(string \<times> string) list"

text \<open>Truth of an optional string, and of an optional selector (an array is truthy).\<close>

fun truthy :: "string option \<Rightarrow> bool" where
  "truthy None = False"
| "truthy (Some s) = (s \<noteq> [])"

fun truthySelectors :: "selectors option \<Rightarrow> bool" where
  "truthySelectors None = False"
| "truthySelectors (Some (OneSelector s)) = (s \<noteq> [])"
| "truthySelectors (Some (ManySelectors ss)) = True"

fun selectorList :: "selectors option \<Rightarrow> string list" where
  "selectorList None = []"
| "selectorList (Some (OneSelector s)) = [s]"
| "selectorList (Some (ManySelectors ss)) = ss"

subsection \<open>Parse options, load the document, read the metadata\<close>

text \<open>
  \<^verbatim>\<open>typeof formatOrOptions === 'string' ? { format: formatOrOptions, baseUrl } : formatOrOptions\<close>,
  the parameter defaulting to \<^verbatim>\<open>'markdown'\<close> when it is not passed (\<open>None\<close>).
\<close>

definition formatOnly :: "FormatOption \<Rightarrow> string option \<Rightarrow> ProcessingOptions" where
  "formatOnly f b =
     \<lparr>format = Some f, baseUrl = b, trackPerformance = None, targetSelector = None,
      removeSelector = None, removeComments = None, withShadowDom = None, withIframe = None\<rparr>"

fun parseOptions :: "formatOrOptions option \<Rightarrow> string option \<Rightarrow> ProcessingOptions" where
  "parseOptions None b = formatOnly Markdown b"
| "parseOptions (Some (Format f)) b = formatOnly f b"
| "parseOptions (Some (Options opts)) b = opts"

text \<open>\<^verbatim>\<open>options.format || 'markdown'\<close>.\<close>

definition formatOf :: "ProcessingOptions \<Rightarrow> FormatOption" where
  "formatOf opts = (case format opts of None \<Rightarrow> Markdown | Some f \<Rightarrow> f)"

definition loadDocument :: "collaborators \<Rightarrow> string \<Rightarrow> document" where
  "loadDocument env html =
     (let doc = parseHTML env html
      in if documentElement doc = None
         then parseHTML env (''<html><body>'' @ html @ ''</body></html>'')
         else doc)"

definition isMetaDescription :: "node \<Rightarrow> bool" where
  "isMetaDescription n = (tagName n = ''meta'' \<and> getAttribute n ''name'' = Some ''description'')"

text \<open>
  \<^verbatim>\<open>head?.querySelector('meta[name="description"]')?.getAttribute('content') || ''\<close>.
\<close>

definition descriptionOf :: "node option \<Rightarrow> string" where
  "descriptionOf head =
     (case head of
        None \<Rightarrow> []
      | Some h \<Rightarrow>
          (case selectWithin isMetaDescription h of
             [] \<Rightarrow> []
           | m # _ \<Rightarrow> (case getAttribute m ''content'' of None \<Rightarrow> [] | Some c \<Rightarrow> c)))"

text \<open>
  Lines 93 to 101 of the enhanced file (33 to 40 of the minimal one): parse, read the
  title, read the description. Both getters stand outside any \<^verbatim>\<open>try\<close> block. The result
  is the title, the description and the document as the getters leave it.
\<close>

definition readMetadata :: "collaborators \<Rightarrow> string \<Rightarrow> jsError + string \<times> string \<times> document" where
  "readMetadata env html =
     bindE (documentTitle env (loadDocument env html))
       (\<lambda>(docTitle, doc1).
          bindE (documentHead env doc1)
            (\<lambda>(head, doc2). Inr (docTitle, descriptionOf head, doc2)))"

subsection \<open>Shadow hosts and frames\<close>

definition shadowRewrite :: "collaborators \<Rightarrow> node \<Rightarrow> node option" where
  "shadowRewrite env host =
     (if getAttribute host ''data-shadow-host'' = Some ''true''
      then (case getAttribute host ''data-shadow-content'' of
              None \<Rightarrow> None
            | Some shadowContent \<Rightarrow>
                if shadowContent \<noteq> []
                then Some (Element (tagName host) (attributesOf host) (parseFragment env shadowContent))
                else None)
      else None)"

definition inlineShadowHosts :: "collaborators \<Rightarrow> document \<Rightarrow> document" where
  "inlineShadowHosts env doc = map (rewriteNode (shadowRewrite env)) doc"

definition isFrameWithSrc :: "node \<Rightarrow> bool" where
  "isFrameWithSrc n = ((tagName n = ''iframe'' \<or> tagName n = ''frame'') \<and> hasAttribute n ''src'')"

definition isScriptOrStyle :: "node \<Rightarrow> bool" where
  "isScriptOrStyle n = (tagName n = ''script'' \<or> tagName n = ''style'')"

text \<open>The test \<^verbatim>\<open>s.match(/^(https?:)?\/\//)\<close>.\<close>

definition hasSchemeOrSlashes :: "string \<Rightarrow> bool" where
  "hasSchemeOrSlashes s =
     (startsWith s ''//'' \<or> startsWith s ''http://'' \<or> startsWith s ''https://'')"

text \<open>
  One step of the loops over \<^verbatim>\<open>iframe.querySelectorAll('[src]')\<close> and
  \<^verbatim>\<open>('[href]')\<close>: a relative value is replaced by its resolution against the frame's
  \<open>src\<close>; when \<open>new URL\<close> throws, the value stays.
\<close>

definition fixRelative :: "collaborators \<Rightarrow> string \<Rightarrow> string \<Rightarrow> attributes \<Rightarrow> attributes" where
  "fixRelative env name src as =
     (case map_of as name of
        None \<Rightarrow> as
      | Some v \<Rightarrow>
          if v \<noteq> [] \<and> \<not> hasSchemeOrSlashes v
          then (case newURL env v src of Inl err \<Rightarrow> as | Inr u \<Rightarrow> setAttr name u as)
          else as)"

definition frameRewrite :: "collaborators \<Rightarrow> string option \<Rightarrow> node \<Rightarrow> node option" where
  "frameRewrite env base iframe =
     (if isFrameWithSrc iframe
      then (case getAttribute iframe ''data-frame-content'' of
              None \<Rightarrow> None
            | Some frameContent \<Rightarrow>
                if frameContent \<noteq> []
                then
                  (let inlined = parseFragment env frameContent;
                       cleaned = removeAll isScriptOrStyle inlined;
                       fixed =
                         (case getAttribute iframe ''src'' of
                            None \<Rightarrow> cleaned
                          | Some src \<Rightarrow>
                              if src \<noteq> [] \<and> truthy base
                              then map (mapAttributes (fixRelative env ''href'' src))
                                     (map (mapAttributes (fixRelative env ''src'' src)) cleaned)
                              else cleaned)
                   in Some (Element (tagName iframe) (attributesOf iframe) fixed))
                else None)
      else None)"

definition inlineFrames :: "collaborators \<Rightarrow> string option \<Rightarrow> document \<Rightarrow> document" where
  "inlineFrames env base doc = map (rewriteNode (frameRewrite env base)) doc"

subsection \<open>Links\<close>

definition isAnchorWithHref :: "node \<Rightarrow> bool" where
  "isAnchorWithHref n = (tagName n = ''a'' \<and> hasAttribute n ''href'')"

definition linkText :: "node \<Rightarrow> string" where
  "linkText x = trim (collapseWhitespace (textContent x))"

text \<open>
  The callback of \<^verbatim>\<open>.map\<close> in the link extraction; \<open>None\<close> is its \<open>null\<close>. The test
  \<^verbatim>\<open>options.baseUrl ? ... : href\<close> is on the truth of the base URL: an absent one and the
  empty string both take the second branch.
\<close>

definition harvestLink :: "collaborators \<Rightarrow> string option \<Rightarrow> node \<Rightarrow> (string \<times> string) option" where
  "harvestLink env base x =
     (case getAttribute x ''href'' of
        None \<Rightarrow> None
      | Some href \<Rightarrow>
          if href = [] then None
          else if startsWith href ''javascript:'' \<or> startsWith href ''file:'' then None
          else (case base of
                  None \<Rightarrow> Some (linkText x, href)
                | Some b \<Rightarrow>
                    if b \<noteq> []
                    then (case newURL env href b of
                            Inl err \<Rightarrow> None
                          | Inr url \<Rightarrow> Some (linkText x, url))
                    else Some (linkText x, href)))"

text \<open>\<^verbatim>\<open>Array.from(querySelectorAll('a[href]')).map(...).filter(Boolean)\<close>.\<close>

definition harvestLinks :: "collaborators \<Rightarrow> string option \<Rightarrow> document \<Rightarrow> (string \<times> string) list" where
  "harvestLinks env base doc =
     List.map_filter (harvestLink env base) (selectAll isAnchorWithHref doc)"

subsection \<open>Cleaning\<close>

definition svgRewrite :: "collaborators \<Rightarrow> node \<Rightarrow> node option" where
  "svgRewrite env x =
     (if tagName x = ''svg''
      then Some (Element (tagName x) (attributesOf x) (parseFragment env []))
      else None)"

definition emptySvgs :: "collaborators \<Rightarrow> document \<Rightarrow> document" where
  "emptySvgs env doc = map (rewriteNode (svgRewrite env)) doc"

text \<open>The selector \<^verbatim>\<open>script, style, noscript, meta, link[rel="stylesheet"]\<close>.\<close>

definition isUnwanted :: "node \<Rightarrow> bool" where
  "isUnwanted n =
     (tagName n \<in> set [''script'', ''style'', ''noscript'', ''meta'']
      \<or> (tagName n = ''link'' \<and> getAttribute n ''rel'' = Some ''stylesheet''))"

text \<open>
  A selector of the caller: the selector engine may reject it, and that exception is
  not caught. A node list holds elements of the document, so positions that name none
  are dropped.
\<close>

definition queryElements :: "collaborators \<Rightarrow> string \<Rightarrow> document \<Rightarrow> jsError + nat list" where
  "queryElements env selector doc =
     bindE (querySelectorAll env selector doc)
       (\<lambda>ps. Inr (filter (\<lambda>k. k < length (allNodes doc) \<and> isElement (allNodes doc ! k)) ps))"

fun removeSelected :: "collaborators \<Rightarrow> string list \<Rightarrow> document \<Rightarrow> jsError + document" where
  "removeSelected env [] doc = Inr doc"
| "removeSelected env (selector # rest) doc =
     bindE (queryElements env selector doc)
       (\<lambda>ps. removeSelected env rest (fst (removeAtPositions ps 0 doc)))"

definition applyRemoveSelector :: "collaborators \<Rightarrow> selectors option \<Rightarrow> document \<Rightarrow> jsError + document" where
  "applyRemoveSelector env sel doc =
     (if truthySelectors sel then removeSelected env (selectorList sel) doc else Inr doc)"

text \<open>
  The loop over the tree walker: creating the walker may throw, outside any \<^verbatim>\<open>try\<close>
  block; each comment node the walker yields is removed from its parent.
\<close>

definition removeCommentNodes :: "collaborators \<Rightarrow> document \<Rightarrow> jsError + document" where
  "removeCommentNodes env doc =
     bindE (commentWalk env doc)
       (\<lambda>ps. Inr (fst (removeAtPositions
                       (filter (\<lambda>k. k < length (allNodes doc) \<and> isComment (allNodes doc ! k)) ps)
                       0 doc)))"

definition isImage :: "node \<Rightarrow> bool" where
  "isImage n = (tagName n = ''img'')"

definition stripDataAria :: "attributes \<Rightarrow> attributes" where
  "stripDataAria as =
     filter (\<lambda>(attr, v). \<not> (startsWith attr ''data-'' \<or> startsWith attr ''aria-'')) as"

definition cleanStyle :: "attributes \<Rightarrow> attributes" where
  "cleanStyle as =
     (case map_of as ''style'' of
        None \<Rightarrow> as
      | Some v \<Rightarrow>
          if startsWith (toLowerCase v) ''display: none'' then as
          else filter (\<lambda>(attr, w). attr \<noteq> ''style'') as)"

subsection \<open>Target selection\<close>

text \<open>\<^verbatim>\<open>if (!allNodes.includes(el)) allNodes.push(el)\<close> over a node list.\<close>

definition pushUnique :: "nat list \<Rightarrow> nat list \<Rightarrow> nat list" where
  "pushUnique acc els = foldl (\<lambda>a el. if el \<in> set a then a else a @ [el]) acc els"

fun collectTargets :: "collaborators \<Rightarrow> string list \<Rightarrow> document \<Rightarrow> nat list \<Rightarrow> jsError + nat list" where
  "collectTargets env [] doc acc = Inr acc"
| "collectTargets env (selector # rest) doc acc =
     bindE (queryElements env selector doc)
       (\<lambda>ps. collectTargets env rest doc (pushUnique acc ps))"

text \<open>
  \<^verbatim>\<open>selectedDoc.body.appendChild(node)\<close> moves the node out of where it stands. After the
  loop every collected node is a child of the new body, in the order collected, each
  followed by the text node \<^verbatim>\<open>'\n\n'\<close>, and none contains another collected node any
  more.
\<close>

definition prunedTarget :: "document \<Rightarrow> nat list \<Rightarrow> nat \<Rightarrow> node list" where
  "prunedTarget doc ps k =
     fst (removeAtPositions (map (\<lambda>j. j - k) (filter (\<lambda>j. k < j) ps)) 0 [allNodes doc ! k])"

definition selectedBody :: "document \<Rightarrow> nat list \<Rightarrow> node list" where
  "selectedBody doc ps = concat (map (\<lambda>k. prunedTarget doc ps k @ [TextNode [LF, LF]]) ps)"

text \<open>
  The result is the child list of the body of \<open>selectedDoc\<close> when \<open>rootContent\<close> became
  \<open>selectedDoc\<close>, and \<open>None\<close> when \<open>rootContent\<close> is still the document. The body of
  \<open>selectedDoc\<close> is read through the getter, first in the loop; the later reads
  return the element the first one returned.
\<close>

definition selectTargets :: "collaborators \<Rightarrow> selectors option \<Rightarrow> document \<Rightarrow> jsError + node list option" where
  "selectTargets env sel doc =
     (if truthySelectors sel
      then bindE (collectTargets env (selectorList sel) doc [])
             (\<lambda>found.
                if found \<noteq> []
                then bindE (documentBody env (parseHTML env ''<html><body></body></html>''))
                       (\<lambda>(body, selectedDoc). Inr (Some (childNodes body @ selectedBody doc found)))
                else Inr None)
      else Inr None)"

subsection \<open>Main content\<close>

text \<open>\<^verbatim>\<open>dom.window.document.body.innerHTML\<close>, with the document as the getter leaves it.\<close>

definition bodyMarkup :: "collaborators \<Rightarrow> document \<Rightarrow> jsError + string \<times> document" where
  "bodyMarkup env doc =
     bindE (documentBody env doc) (\<lambda>(body, doc'). Inr (serialize env (childNodes body), doc'))"

text \<open>
  The \<^verbatim>\<open>try\<close>/\<^verbatim>\<open>catch\<close> around Readability. The \<^verbatim>\<open>else\<close> branch reads the body inside
  the \<^verbatim>\<open>try\<close> block, so an exception of that read is caught, and the \<^verbatim>\<open>catch\<close> block
  reads the body again, now unguarded; \<open>readabilityResult\<close> keeps what \<open>parse\<close> returned.
  The result is \<open>(mainContent, readabilityResult)\<close> and the document as it is left.
\<close>

definition bodyMarkupRetried :: "collaborators \<Rightarrow> document \<Rightarrow> jsError + string \<times> document" where
  "bodyMarkupRetried env doc =
     (case bodyMarkup env doc of
        Inr res \<Rightarrow> Inr res
      | Inl err \<Rightarrow> bodyMarkup env doc)"

definition extractMain ::
  "collaborators \<Rightarrow> document \<Rightarrow> node list option \<Rightarrow> jsError + string \<times> article option \<times> document" where
  "extractMain env doc rootContent =
     (case rootContent of
        Some selected \<Rightarrow> Inr (serialize env selected, None, doc)
      | None \<Rightarrow>
          (case readabilityParse env doc of
             Inl err \<Rightarrow>
               bindE (bodyMarkup env doc) (\<lambda>(markup, doc'). Inr (markup, None, doc'))
           | Inr r \<Rightarrow>
               (case r of
                  None \<Rightarrow>
                    bindE (bodyMarkupRetried env doc)
                      (\<lambda>(markup, doc'). Inr (markup, None, doc'))
                | Some a \<Rightarrow>
                    if articleContent a \<noteq> [] then Inr (articleContent a, Some a, doc)
                    else bindE (bodyMarkupRetried env doc)
                           (\<lambda>(markup, doc'). Inr (markup, Some a, doc')))))"

text \<open>
  \<^verbatim>\<open>parseHTML(markup).window.document.body.textContent?.trim() || ''\<close>: the markup is
  parsed into a new document, and the body getter is called on it outside any \<^verbatim>\<open>try\<close>
  block.
\<close>

definition plainText :: "collaborators \<Rightarrow> string \<Rightarrow> jsError + string" where
  "plainText env markup =
     bindE (documentBody env (parseHTML env markup))
       (\<lambda>(body, doc'). Inr (trim (textContent body)))"

subsection \<open>Rendering\<close>

text \<open>
  \<open>prepareDomForTurndown\<close> defines an own property \<open>rows\<close> on table elements. Own properties
  belong to objects, so the model keeps them in a store keyed by the identity of the
  element: the number of the document object it belongs to (a call of \<open>parseHTML\<close> makes
  a new one) and its position in that document. No other step of the pipeline defines a
  property, so the store is followed through the markdown branch only, its documents
  numbered from there.
\<close>

record jsHeap =
  nextDocument :: nat
  rowsProperty :: "nat \<times> nat \<Rightarrow> node list option"

definition emptyHeap :: jsHeap where
  "emptyHeap = \<lparr>nextDocument = 0, rowsProperty = (\<lambda>_. None)\<rparr>"

definition isTable :: "node \<Rightarrow> bool" where
  "isTable n = (tagName n = ''table'')"

definition isTableRow :: "node \<Rightarrow> bool" where
  "isTableRow n = (tagName n = ''tr'')"

definition positionsOf :: "(node \<Rightarrow> bool) \<Rightarrow> document \<Rightarrow> nat list" where
  "positionsOf p doc =
     filter (\<lambda>k. isElement (allNodes doc ! k) \<and> p (allNodes doc ! k)) [0..<length (allNodes doc)]"

definition defineRows :: "nat \<Rightarrow> document \<Rightarrow> jsHeap \<Rightarrow> nat \<Rightarrow> jsHeap" where
  "defineRows d doc h k =
     h\<lparr>rowsProperty := (rowsProperty h)((d, k) := Some (selectWithin isTableRow (allNodes doc ! k)))\<rparr>"

text \<open>
  The function returns \<^verbatim>\<open>void\<close>: its only effect is on the heap, on the elements of the
  document it parsed itself.
\<close>

definition prepareDomForTurndown :: "collaborators \<Rightarrow> string \<Rightarrow> jsHeap \<Rightarrow> jsHeap" where
  "prepareDomForTurndown env html h =
     (let d = nextDocument h;
          doc = parseHTML env html
      in foldl (defineRows d doc) (h\<lparr>nextDocument := Suc d\<rparr>) (positionsOf isTable doc))"

text \<open>
  The markdown branch with its heap: the table preparation, then the serializer called
  on the string \<open>mainContent\<close>. The \<^verbatim>\<open>catch\<close> block re-parses \<open>mainContent\<close> and reads the
  body of that document; an exception of that read is not caught.
\<close>

definition renderMarkdown ::
  "collaborators \<Rightarrow> ProcessingOptions \<Rightarrow> string \<Rightarrow> jsHeap \<Rightarrow> (jsError + string) \<times> jsHeap" where
  "renderMarkdown env opts mainContent h =
     (let h1 = prepareDomForTurndown env mainContent h
      in (case turndown env (EnhancedRules (baseUrl opts)) mainContent of
            Inr markdown \<Rightarrow> (Inr markdown, h1)
          | Inl err \<Rightarrow> (plainText env mainContent, h1)))"

definition render :: "collaborators \<Rightarrow> ProcessingOptions \<Rightarrow> string \<Rightarrow> jsError + string" where
  "render env opts mainContent =
     (if formatOf opts = Markdown
      then fst (renderMarkdown env opts mainContent emptyHeap)
      else plainText env mainContent)"

subsection \<open>The pipeline\<close>

text \<open>Shadow hosts, then frames.\<close>

definition inlineEmbedded :: "collaborators \<Rightarrow> ProcessingOptions \<Rightarrow> document \<Rightarrow> document" where
  "inlineEmbedded env opts doc0 =
     (let doc1 = (if withShadowDom opts \<noteq> Some False then inlineShadowHosts env doc0 else doc0)
      in if withIframe opts \<noteq> Some False then inlineFrames env (baseUrl opts) doc1 else doc1)"

text \<open>
  The document as it stands when the links are extracted. (Where the call has thrown
  before that point there is no such document; the value is then the empty one.)
\<close>

definition inlinedDocument :: "collaborators \<Rightarrow> ProcessingOptions \<Rightarrow> string \<Rightarrow> document" where
  "inlinedDocument env opts html =
     (case readMetadata env html of
        Inl e \<Rightarrow> []
      | Inr (docTitle, docDescription, doc0) \<Rightarrow> inlineEmbedded env opts doc0)"

text \<open>The cleaning steps up to the caller's \<open>removeSelector\<close>, and those after it.\<close>

definition cleanBefore :: "collaborators \<Rightarrow> document \<Rightarrow> document" where
  "cleanBefore env doc = removeAll isUnwanted (emptySvgs env doc)"

definition cleanAfter :: "collaborators \<Rightarrow> ProcessingOptions \<Rightarrow> document \<Rightarrow> jsError + document" where
  "cleanAfter env opts doc =
     bindE (if removeComments opts \<noteq> Some False then removeCommentNodes env doc else Inr doc)
       (\<lambda>doc1.
          let doc2 = removeAll isImage doc1;
              doc3 = map (mapAttributes stripDataAria) doc2
          in Inr (map (mapAttributes cleanStyle) doc3))"

text \<open>\<^verbatim>\<open>readabilityResult?.title || title\<close>.\<close>

definition resultTitle :: "article option \<Rightarrow> string \<Rightarrow> string" where
  "resultTitle r t =
     (case r of
        None \<Rightarrow> t
      | Some a \<Rightarrow> if articleTitle a \<noteq> [] then articleTitle a else t)"

text \<open>
  The cleaning, target selection and main-content steps on the inlined document: the
  triple of \<open>mainContent\<close>, \<open>readabilityResult\<close> and the document as it is left, or the
  exception that ends the call.
\<close>

definition workingMarkupOf ::
  "collaborators \<Rightarrow> ProcessingOptions \<Rightarrow> document \<Rightarrow> jsError + string \<times> article option \<times> document" where
  "workingMarkupOf env opts doc =
     bindE (applyRemoveSelector env (removeSelector opts) (cleanBefore env doc))
       (\<lambda>doc1.
          bindE (cleanAfter env opts doc1)
            (\<lambda>doc2.
               bindE (selectTargets env (targetSelector opts) doc2)
                 (\<lambda>rootContent. extractMain env doc2 rootContent)))"

definition workingMarkup ::
  "collaborators \<Rightarrow> ProcessingOptions \<Rightarrow> string \<Rightarrow> jsError + string \<times> article option \<times> document" where
  "workingMarkup env opts html =
     bindE (readMetadata env html)
       (\<lambda>(docTitle, docDescription, doc0).
          workingMarkupOf env opts (inlineEmbedded env opts doc0))"

definition processHtml ::
  "collaborators \<Rightarrow> string \<Rightarrow> formatOrOptions option \<Rightarrow> string option \<Rightarrow> jsError + ProcessedHTML" where
  "processHtml env html formatOrOpts baseUrlArg =
     (let opts = parseOptions formatOrOpts baseUrlArg
      in bindE (readMetadata env html)
           (\<lambda>(docTitle, docDescription, doc0).
              let doc = inlineEmbedded env opts doc0;
                  found = harvestLinks env (baseUrl opts) doc
              in bindE (workingMarkupOf env opts doc)
                   (\<lambda>(mainContent, readabilityResult, docLeft).
                      bindE (render env opts mainContent)
                        (\<lambda>processedContent.
                           Inr \<lparr>content = cleanRedundantEmptyLines processedContent,
                                title = resultTitle readabilityResult docTitle,
                                description = docDescription,
                                links = found\<rparr>))))"

section \<open>The minimal processor\<close>

definition frameRewriteMinimal :: "collaborators \<Rightarrow> node \<Rightarrow> node option" where
  "frameRewriteMinimal env iframe =
     (if isFrameWithSrc iframe
      then (case getAttribute iframe ''data-frame-content'' of
              None \<Rightarrow> None
            | Some frameContent \<Rightarrow>
                if frameContent \<noteq> []
                then Some (Element (tagName iframe) (attributesOf iframe)
                             (removeAll isScriptOrStyle (parseFragment env frameContent)))
                else None)
      else None)"

text \<open>The link callback of the minimal file: it has no test on the scheme.\<close>

definition harvestLinkMinimal :: "collaborators \<Rightarrow> string option \<Rightarrow> node \<Rightarrow> (string \<times> string) option" where
  "harvestLinkMinimal env base x =
     (case getAttribute x ''href'' of
        None \<Rightarrow> None
      | Some href \<Rightarrow>
          if href = [] then None
          else (case base of
                  None \<Rightarrow> Some (linkText x, href)
                | Some b \<Rightarrow>
                    if b \<noteq> []
                    then (case newURL env href b of
                            Inl err \<Rightarrow> None
                          | Inr url \<Rightarrow> Some (linkText x, url))
                    else Some (linkText x, href)))"

text \<open>The selector \<^verbatim>\<open>script, style, noscript, meta\<close>.\<close>

definition isUnwantedMinimal :: "node \<Rightarrow> bool" where
  "isUnwantedMinimal n = (tagName n \<in> set [''script'', ''style'', ''noscript'', ''meta''])"

definition inlineEmbeddedMinimal :: "collaborators \<Rightarrow> document \<Rightarrow> document" where
  "inlineEmbeddedMinimal env doc0 =
     map (rewriteNode (frameRewriteMinimal env)) (inlineShadowHosts env doc0)"

text \<open>
  The document as it stands when the links are extracted (the empty one where the call
  has thrown before).
\<close>

definition inlinedDocumentMinimal :: "collaborators \<Rightarrow> string \<Rightarrow> document" where
  "inlinedDocumentMinimal env html =
     (case readMetadata env html of
        Inl e \<Rightarrow> []
      | Inr (docTitle, docDescription, doc0) \<Rightarrow> inlineEmbeddedMinimal env doc0)"

definition cleanMinimal :: "collaborators \<Rightarrow> document \<Rightarrow> document" where
  "cleanMinimal env doc = removeAll isImage (removeAll isUnwantedMinimal (emptySvgs env doc))"

text \<open>
  In the \<^verbatim>\<open>catch\<close> block of the markdown branch the minimal file reads
  \<^verbatim>\<open>dom.window.document.body.textContent\<close>: the body of the cleaned document, not the
  markup that was handed to the serializer. The text branch is that of the enhanced
  file.
\<close>

definition renderMinimal ::
  "collaborators \<Rightarrow> FormatOption \<Rightarrow> document \<Rightarrow> string \<Rightarrow> jsError + string" where
  "renderMinimal env fmt doc mainContent =
     (if fmt = Markdown
      then (case turndown env MinimalRules mainContent of
              Inr markdown \<Rightarrow> Inr markdown
            | Inl err \<Rightarrow>
                bindE (documentBody env doc) (\<lambda>(body, doc'). Inr (trim (textContent body))))
      else plainText env mainContent)"

text \<open>The format parameter defaults to \<^verbatim>\<open>'markdown'\<close> when it is not passed (\<open>None\<close>).\<close>

definition workingMarkupMinimal ::
  "collaborators \<Rightarrow> string \<Rightarrow> jsError + string \<times> article option \<times> document" where
  "workingMarkupMinimal env html =
     bindE (readMetadata env html)
       (\<lambda>(docTitle, docDescription, doc0).
          extractMain env (cleanMinimal env (inlineEmbeddedMinimal env doc0)) None)"

definition processHtmlMinimal ::
  "collaborators \<Rightarrow> string \<Rightarrow> FormatOption option \<Rightarrow> string option \<Rightarrow> jsError + ProcessedHTML" where
  "processHtmlMinimal env html formatArg baseUrlArg =
     (let fmt = (case formatArg of None \<Rightarrow> Markdown | Some f \<Rightarrow> f)
      in bindE (readMetadata env html)
           (\<lambda>(docTitle, docDescription, doc0).
              let doc = inlineEmbeddedMinimal env doc0;
                  found = List.map_filter (harvestLinkMinimal env baseUrlArg)
                            (selectAll isAnchorWithHref doc)
              in bindE (extractMain env (cleanMinimal env doc) None)
                   (\<lambda>(mainContent, readabilityResult, docLeft).
                      bindE (renderMinimal env fmt docLeft mainContent)
                        (\<lambda>processedContent.
                           Inr \<lparr>content = cleanRedundantEmptyLines processedContent,
                                title = resultTitle readabilityResult docTitle,
                                description = docDescription,
                                links = found\<rparr>))))"

section \<open>Vocabulary of the statements\<close>

text \<open>
  An anchor whose \<open>href\<close> is empty or begins with \<^verbatim>\<open>javascript:\<close> or \<^verbatim>\<open>file:\<close>, and an
  anchor whose \<open>href\<close> is empty.
\<close>

definition rejectedHref :: "node \<Rightarrow> bool" where
  "rejectedHref x =
     (case getAttribute x ''href'' of
        None \<Rightarrow> True
      | Some href \<Rightarrow> href = [] \<or> startsWith href ''javascript:'' \<or> startsWith href ''file:'')"

definition emptyHref :: "node \<Rightarrow> bool" where
  "emptyHref x = (case getAttribute x ''href'' of None \<Rightarrow> True | Some href \<Rightarrow> href = [])"

section \<open>Sample collaborators\<close>

text \<open>
  Concrete collaborators, on which the statements below are evaluated. They follow the
  libraries the source imports.

  The sample parser knows a few pages. As linkedom does, it builds the tree the markup
  spells out and adds no \<open>html\<close>, \<open>head\<close> or \<open>body\<close> element of its own: a fragment parses
  to its top-level nodes, the empty string to the empty document, a string without
  markup to one text node.
\<close>

definition samplePages :: "(string \<times> node list) list" where
  "samplePages =
     [(''<html><head><title>T</title></head><body><a href=\"/x\">Link</a></body></html>'',
         [Element ''html'' []
            [Element ''head'' [] [Element ''title'' [] [TextNode ''T'']],
             Element ''body'' [] [Element ''a'' [(''href'', ''/x'')] [TextNode ''Link'']]]]),
      (''<html><head></head><body><p>Hello</p></body></html>'',
         [Element ''html'' []
            [Element ''head'' [] [],
             Element ''body'' [] [Element ''p'' [] [TextNode ''Hello'']]]]),
      (''<html><head></head><body><table><tr><td>1</td></tr></table></body></html>'',
         [Element ''html'' []
            [Element ''head'' [] [],
             Element ''body'' []
               [Element ''table'' [] [Element ''tr'' [] [Element ''td'' [] [TextNode ''1'']]]]]]),
      (''<a href=\"/x\">Link</a>'',
         [Element ''a'' [(''href'', ''/x'')] [TextNode ''Link'']]),
      (''<a href=\"/x\">Link</a><a href=\"/x\">Link</a>'',
         [Element ''a'' [(''href'', ''/x'')] [TextNode ''Link''],
          Element ''a'' [(''href'', ''/x'')] [TextNode ''Link'']]),
      (''<a href=\"javascript:alert(1)\">Go</a>'',
         [Element ''a'' [(''href'', ''javascript:alert(1)'')] [TextNode ''Go'']]),
      (''<p>Hello</p><script>evil()</script>'',
         [Element ''p'' [] [TextNode ''Hello''], Element ''script'' [] [TextNode ''evil()'']]),
      (''<p>Hello</p>'',
         [Element ''p'' [] [TextNode ''Hello'']]),
      (''<table><tr><td>1</td></tr></table>'',
         [Element ''table'' [] [Element ''tr'' [] [Element ''td'' [] [TextNode ''1'']]]])]"

definition sampleFragment :: "string \<Rightarrow> node list" where
  "sampleFragment s =
     (if s = [] then []
      else case map_of samplePages s of Some ns \<Rightarrow> ns | None \<Rightarrow> [TextNode s])"

definition endsWith :: "string \<Rightarrow> string \<Rightarrow> bool" where
  "endsWith s p = (length p \<le> length s \<and> drop (length s - length p) s = p)"

definition sampleParse :: "string \<Rightarrow> document" where
  "sampleParse s =
     (case map_of samplePages s of
        Some ns \<Rightarrow> ns
      | None \<Rightarrow>
          if startsWith s ''<html><body>'' \<and> endsWith (drop 12 s) ''</body></html>''
          then [Element ''html'' []
                  [Element ''body'' [] (sampleFragment (take (length s - 26) (drop 12 s)))]]
          else sampleFragment s)"

text \<open>
  \<^verbatim>\<open>innerHTML\<close> of an element with the given children (no escaping, no void elements).
\<close>

fun outerHTML :: "node \<Rightarrow> string" where
  "outerHTML (Element t as cs) =
     ''<'' @ t @ concat (map (\<lambda>(k, v). '' '' @ k @ ''=\"'' @ v @ ''\"'') as) @ ''>''
       @ concat (map outerHTML cs) @ ''</'' @ t @ ''>''"
| "outerHTML (TextNode s) = s"
| "outerHTML (CommentNode s) = ''<!--'' @ s @ ''-->''"

definition sampleSerialize :: "node list \<Rightarrow> string" where
  "sampleSerialize ns = concat (map outerHTML ns)"

text \<open>
  The getters of linkedom's document. \<open>documentElement\<close> is the first element among the
  children of the document. \<open>head\<close> is the first element child of \<open>documentElement\<close> when
  that is a \<open>head\<close> element; otherwise a new \<open>head\<close> element is made the first child of
  \<open>documentElement\<close>. \<open>body\<close> is the element that follows \<open>head\<close> when that is a \<open>body\<close>
  element; otherwise a new, empty \<open>body\<close> element is inserted after \<open>head\<close>. \<open>title\<close> is
  the text of the first \<open>title\<close> element inside \<open>head\<close>. With no \<open>documentElement\<close>, each
  of them dereferences \<open>null\<close>: a \<open>TypeError\<close>.
\<close>

definition typeError :: jsError where
  "typeError = JsError ''TypeError''"

fun mapFirstElement :: "(node \<Rightarrow> node) \<Rightarrow> node list \<Rightarrow> node list" where
  "mapFirstElement f [] = []"
| "mapFirstElement f (n # ns) = (if isElement n then f n # ns else n # mapFirstElement f ns)"

definition withHead :: "node \<Rightarrow> node" where
  "withHead root =
     (case find isElement (childNodes root) of
        Some c \<Rightarrow>
          if tagName c = ''head'' then root
          else Element (tagName root) (attributesOf root) (Element ''head'' [] [] # childNodes root)
      | None \<Rightarrow>
          Element (tagName root) (attributesOf root) (Element ''head'' [] [] # childNodes root))"

fun bodyAfterHead :: "node list \<Rightarrow> node list" where
  "bodyAfterHead [] = []"
| "bodyAfterHead (n # ns) =
     (if isElement n
      then (case find isElement ns of
              Some c \<Rightarrow> if tagName c = ''body'' then n # ns else n # Element ''body'' [] [] # ns
            | None \<Rightarrow> n # Element ''body'' [] [] # ns)
      else n # bodyAfterHead ns)"

definition withBody :: "node \<Rightarrow> node" where
  "withBody root =
     Element (tagName root) (attributesOf root) (bodyAfterHead (childNodes (withHead root)))"

definition sampleHead :: "document \<Rightarrow> jsError + node option \<times> document" where
  "sampleHead doc =
     (case documentElement doc of
        None \<Rightarrow> Inl typeError
      | Some root \<Rightarrow>
          Inr (find isElement (childNodes (withHead root)), mapFirstElement withHead doc))"

definition sampleBody :: "document \<Rightarrow> jsError + node \<times> document" where
  "sampleBody doc =
     (case documentElement doc of
        None \<Rightarrow> Inl typeError
      | Some root \<Rightarrow>
          (case filter isElement (childNodes (withBody root)) of
             head # body # rest \<Rightarrow> Inr (body, mapFirstElement withBody doc)
           | _ \<Rightarrow> Inl typeError))"

definition sampleTitle :: "document \<Rightarrow> jsError + string \<times> document" where
  "sampleTitle doc =
     bindE (sampleHead doc)
       (\<lambda>(head, doc').
          Inr (case head of
                 None \<Rightarrow> []
               | Some h \<Rightarrow>
                   (case selectWithin (\<lambda>n. tagName n = ''title'') h of
                      [] \<Rightarrow> []
                    | t # _ \<Rightarrow> textContent t),
               doc'))"

text \<open>
  linkedom's tree walker over a document starts at \<open>documentElement\<close> and collects the
  nodes up to its end when it is created: with no \<open>documentElement\<close> creating it is a
  \<open>TypeError\<close>, and a comment outside \<open>documentElement\<close> is not visited.
\<close>

definition sampleCommentWalk :: "document \<Rightarrow> jsError + nat list" where
  "sampleCommentWalk doc =
     (case documentElement doc of
        None \<Rightarrow> Inl typeError
      | Some root \<Rightarrow>
          (let first = length (takeWhile (\<lambda>n. \<not> isElement n) doc)
           in Inr (filter (\<lambda>k. isComment (allNodes doc ! k)) [first..<first + length (subtree root)])))"

text \<open>
  The sample selector engine understands a tag name and rejects \<^verbatim>\<open>!!!\<close>. The sample URL
  resolver appends a path that starts with \<^verbatim>\<open>/\<close> to the base, passes absolute URLs
  through and rejects the rest. The sample Readability finds no article. The sample
  Turndown returns the empty string for the empty string, as Turndown does, and an
  inline link for the one anchor it knows; any other markup it returns as it stands.
  The failing one always throws.
\<close>

definition sampleQuery :: "string \<Rightarrow> document \<Rightarrow> jsError + nat list" where
  "sampleQuery selector doc =
     (if selector = ''!!!'' then Inl (JsError ''SyntaxError'')
      else Inr (positionsOf (\<lambda>n. tagName n = selector) doc))"

definition sampleURL :: "string \<Rightarrow> string \<Rightarrow> jsError + string" where
  "sampleURL u base =
     (if startsWith u ''/'' then Inr (base @ u)
      else if startsWith u ''http:'' \<or> startsWith u ''https:'' \<or> startsWith u ''javascript:''
      then Inr u
      else Inl (JsError ''Invalid URL''))"

definition sampleReadability :: "document \<Rightarrow> jsError + article option" where
  "sampleReadability doc = Inr None"

definition sampleLinkTarget :: "turndownSetup \<Rightarrow> string" where
  "sampleLinkTarget setup =
     (case setup of
        EnhancedRules (Some b) \<Rightarrow>
          (if b = [] then ''/x''
           else case sampleURL ''/x'' b of Inl e \<Rightarrow> ''/x'' | Inr url \<Rightarrow> url)
      | _ \<Rightarrow> ''/x'')"

definition sampleTurndown :: "turndownSetup \<Rightarrow> string \<Rightarrow> jsError + string" where
  "sampleTurndown setup markup =
     (if markup = ''<a href=\"/x\">Link</a>''
      then Inr (''[Link]('' @ sampleLinkTarget setup @ '')'')
      else Inr markup)"

definition sampleCollaborators :: collaborators where
  "sampleCollaborators =
     \<lparr>parseHTML = sampleParse,
      documentTitle = sampleTitle,
      documentHead = sampleHead,
      documentBody = sampleBody,
      commentWalk = sampleCommentWalk,
      parseFragment = sampleFragment,
      serialize = sampleSerialize,
      querySelectorAll = sampleQuery,
      newURL = sampleURL,
      readabilityParse = sampleReadability,
      turndown = sampleTurndown\<rparr>"

definition failingTurndown :: collaborators where
  "failingTurndown = sampleCollaborators\<lparr>turndown := (\<lambda>setup markup. Inl (JsError ''turndown''))\<rparr>"

chapter \<open>Properties\<close>

section \<open>The whitespace normalizer\<close>

lemma significant_iff: "significant l \<longleftrightarrow> (\<exists>c\<in>set l. \<not> isWhiteSpace c)"
proof -
  have "(\<forall>x\<in>set (dropWhile isWhiteSpace l). isWhiteSpace x) \<longleftrightarrow> (\<forall>x\<in>set l. isWhiteSpace x)"
    by (induction l) auto
  then show ?thesis
    by (auto simp: significant_def Boolean_def trim_def)
qed

lemma flag_is_significant: "(\<lambda>line. Boolean (trim line)) = significant"
  by (simp add: fun_eq_iff significant_def)

lemma clean_keptLines: "cleanRedundantEmptyLines s = joinLines (keptLines (splitLines s))"
  by (simp add: cleanRedundantEmptyLines_def keptLines_def Let_def)

lemma keep_shift:
  "drop k fl = map significant ls \<Longrightarrow> p = (0 < k \<and> fl ! (k - 1)) \<Longrightarrow>
   filterIdx (\<lambda>_ i. flagAt fl (int i) \<or> flagAt fl (int i - 1)) k ls = keepRec p ls"
proof (induction ls arbitrary: k p)
  case Nil
  then show ?case by simp
next
  case (Cons l ls)
  from Cons.prems(1) have k: "k < length fl"
    by (metis drop_all list.simps(3) list.map_disc_iff not_le_imp_less)
  with Cons.prems(1) have hd: "fl ! k = significant l" and tl: "drop (Suc k) fl = map significant ls"
    by (simp_all add: Cons_nth_drop_Suc[symmetric])
  have a: "flagAt fl (int k) = significant l"
    using k hd by (simp add: flagAt_def)
  have b: "flagAt fl (int k - 1) = p"
  proof (cases k)
    case 0
    then show ?thesis using Cons.prems(2) by (simp add: flagAt_def)
  next
    case (Suc j)
    then show ?thesis using Cons.prems(2) k by (simp add: flagAt_def)
  qed
  have ih: "filterIdx (\<lambda>_ i. flagAt fl (int i) \<or> flagAt fl (int i - 1)) (Suc k) ls
      = keepRec (significant l) ls"
    by (rule Cons.IH[OF tl]) (simp add: hd)
  show ?case
    by (simp only: filterIdx.simps keepRec.simps a b ih)
qed

lemma keptLines_keepRec: "keptLines ls = keepRec False ls"
  using keep_shift[of 0 "map significant ls" ls False]
  by (simp add: keptLines_def Let_def flag_is_significant)

lemma filterIdx_nths: "filterIdx (\<lambda>_ i. q i) k xs = nths xs {i. q (i + k)}"
  by (induction xs arbitrary: k) (simp_all add: nths_Cons)

lemma nths_cong_below: "(\<And>i. i < length xs \<Longrightarrow> i \<in> A \<longleftrightarrow> i \<in> B) \<Longrightarrow> nths xs A = nths xs B"
  unfolding nths_def by (rule arg_cong[where f = "map fst"], rule filter_cong) (auto simp: set_zip)

lemma keptLines_nths:
  "keptLines ls = nths ls {i. significant (ls ! i) \<or> (0 < i \<and> significant (ls ! (i - 1)))}"
proof -
  have "keptLines ls
      = nths ls {i. flagAt (map significant ls) (int i) \<or> flagAt (map significant ls) (int i - 1)}"
    using filterIdx_nths[of "\<lambda>i. flagAt (map significant ls) (int i)
        \<or> flagAt (map significant ls) (int i - 1)" 0 ls]
    by (simp add: keptLines_def Let_def flag_is_significant)
  also have "\<dots> = nths ls {i. significant (ls ! i) \<or> (0 < i \<and> significant (ls ! (i - 1)))}"
  proof (rule nths_cong_below)
    fix i assume i: "i < length ls"
    have "flagAt (map significant ls) (int i - 1) = (0 < i \<and> significant (ls ! (i - 1)))"
      using i by (cases i) (simp_all add: flagAt_def)
    then show "i \<in> {i. flagAt (map significant ls) (int i) \<or> flagAt (map significant ls) (int i - 1)}
        \<longleftrightarrow> i \<in> {i. significant (ls ! i) \<or> (0 < i \<and> significant (ls ! (i - 1)))}"
      using i by (simp add: flagAt_def)
  qed
  finally show ?thesis .
qed

lemma stripCR_significant [simp]: "significant (stripCR l) = significant l"
proof (cases "l \<noteq> [] \<and> last l = CR")
  case True
  then obtain ys where "l = ys @ [CR]"
    by (metis append_butlast_last_id)
  then show ?thesis
    by (auto simp: stripCR_def significant_iff isWhiteSpace_def)
next
  case False
  then show ?thesis by (auto simp: stripCR_def)
qed

lemma splitLines_no_LF: "LF \<notin> set l \<Longrightarrow> splitLines l = [l]"
  by (induction l rule: splitLines.induct) auto

lemma splitLines_line: "LF \<notin> set l \<Longrightarrow> splitLines (l @ LF # rest) = stripCR l # splitLines rest"
proof (induction l rule: splitLines.induct)
  case 1
  then show ?case by (cases rest) (simp_all add: stripCR_def)
next
  case (2 c)
  then show ?case by (cases rest) (auto simp: stripCR_def)
next
  case (3 c d cs)
  then show ?case by (auto simp: stripCR_def)
qed

lemma splitLines_LF_free: "l \<in> set (splitLines s) \<Longrightarrow> LF \<notin> set l"
  by (induction s arbitrary: l rule: splitLines.induct) (auto split: list.splits if_splits)

lemma split_join:
  "ls \<noteq> [] \<Longrightarrow> \<forall>l\<in>set ls. LF \<notin> set l \<Longrightarrow> splitLines (joinLines ls) = stripInner ls"
  by (induction ls rule: joinLines.induct) (simp_all add: splitLines_no_LF splitLines_line)

lemma keepRec_subset: "set (keepRec p ls) \<subseteq> set ls"
  by (induction ls arbitrary: p) auto

lemma keepRec_wellSpaced: "wellSpaced p (keepRec p ls)"
  by (induction ls arbitrary: p) auto

lemma wellSpaced_keepRec: "wellSpaced p ls \<Longrightarrow> keepRec p ls = ls"
  by (induction ls arbitrary: p) auto

lemma wellSpaced_stripInner: "wellSpaced p (stripInner ls) = wellSpaced p ls"
  by (induction ls arbitrary: p rule: stripInner.induct) auto

lemma wellSpaced_adjacent:
  "wellSpaced p xs \<Longrightarrow> Suc i < length xs \<Longrightarrow> significant (xs ! i) \<or> significant (xs ! Suc i)"
proof (induction xs arbitrary: p i)
  case Nil
  then show ?case by simp
next
  case (Cons x xs)
  show ?case
  proof (cases i)
    case 0
    with Cons.prems show ?thesis by (cases xs) auto
  next
    case (Suc j)
    with Cons.prems Cons.IH[of "significant x" j] show ?thesis by simp
  qed
qed

lemma wellSpaced_hd: "wellSpaced False xs \<Longrightarrow> xs \<noteq> [] \<Longrightarrow> significant (hd xs)"
  by (cases xs) auto

lemma keptLines_LF_free: "l \<in> set (keptLines (splitLines s)) \<Longrightarrow> LF \<notin> set l"
  using keepRec_subset[of False "splitLines s"] splitLines_LF_free[of l s]
  by (auto simp: keptLines_keepRec)

lemma clean_empty: "keptLines (splitLines s) = [] \<Longrightarrow> cleanRedundantEmptyLines s = []"
  by (simp add: clean_keptLines)

lemma clean_Nil [simp]: "cleanRedundantEmptyLines [] = []"
  by (simp add: clean_keptLines keptLines_keepRec significant_iff)

lemma lines_of_clean:
  "keptLines (splitLines s) \<noteq> [] \<Longrightarrow>
   splitLines (cleanRedundantEmptyLines s) = stripInner (keptLines (splitLines s))"
  unfolding clean_keptLines by (rule split_join) (auto dest: keptLines_LF_free)

lemma stripInner_Nil_iff [simp]: "stripInner ls = [] \<longleftrightarrow> ls = []"
  by (induction ls rule: stripInner.induct) simp_all

lemma wellSpaced_lines_of_clean:
  "keptLines (splitLines s) \<noteq> [] \<Longrightarrow> wellSpaced False (splitLines (cleanRedundantEmptyLines s))"
  by (simp add: lines_of_clean wellSpaced_stripInner keptLines_keepRec keepRec_wellSpaced)

lemma second_pass:
  "cleanRedundantEmptyLines (cleanRedundantEmptyLines s)
     = joinLines (stripInner (keptLines (splitLines s)))"
proof (cases "keptLines (splitLines s) = []")
  case True
  then show ?thesis by (simp add: clean_empty)
next
  case False
  have "wellSpaced False (stripInner (keptLines (splitLines s)))"
    by (simp add: wellSpaced_stripInner keptLines_keepRec keepRec_wellSpaced)
  then show ?thesis
    by (simp add: clean_keptLines[of "cleanRedundantEmptyLines s"] lines_of_clean[OF False]
        keptLines_keepRec[of "stripInner _"] wellSpaced_keepRec)
qed

lemma joinLines_Cons: "ls \<noteq> [] \<Longrightarrow> joinLines (l # ls) = l @ LF # joinLines ls"
  by (cases ls) simp_all

lemma butlast_neq: "l \<noteq> [] \<Longrightarrow> butlast l \<noteq> l"
proof
  assume ne: "l \<noteq> []" and eq: "butlast l = l"
  have "length (butlast l) = length l - 1" by (rule length_butlast)
  with eq have "length l = length l - 1" by simp
  moreover from ne have "0 < length l" by simp
  ultimately show False by arith
qed

lemma stripInner_id_iff: "stripInner ls = ls \<longleftrightarrow> (\<forall>l\<in>set (butlast ls). \<not> endsWithCR l)"
proof (induction ls rule: stripInner.induct)
  case (3 l m ls)
  have "stripCR l = l \<longleftrightarrow> \<not> endsWithCR l"
    by (auto simp: stripCR_def endsWithCR_def butlast_neq)
  with "3" show ?case by auto
qed simp_all

lemma length_stripCR: "length (stripCR l) \<le> length l"
  by (simp add: stripCR_def)

lemma length_join_stripInner: "length (joinLines (stripInner ls)) \<le> length (joinLines ls)"
  by (induction ls rule: stripInner.induct) (simp_all add: length_stripCR joinLines_Cons add_mono)

lemma join_stripInner_eq: "joinLines (stripInner ls) = joinLines ls \<Longrightarrow> stripInner ls = ls"
proof (induction ls rule: stripInner.induct)
  case (3 l m ls)
  from "3.prems"
  have "length (stripCR l @ LF # joinLines (stripInner (m # ls)))
      = length (l @ LF # joinLines (m # ls))"
    by (simp add: joinLines_Cons)
  then have len: "length (stripCR l) + length (joinLines (stripInner (m # ls)))
      = length l + length (joinLines (m # ls))"
    by simp
  with length_stripCR[of l] length_join_stripInner[of "m # ls"]
  have "length (stripCR l) = length l"
    by linarith
  then have l: "stripCR l = l"
    by (cases l) (auto simp: stripCR_def split: if_splits)
  with "3.prems" have "joinLines (stripInner (m # ls)) = joinLines (m # ls)"
    by (simp add: joinLines_Cons)
  with "3.IH" l show ?case by simp
qed simp_all

lemma splitAtLF_no_LF: "LF \<notin> set l \<Longrightarrow> splitAtLF l = [l]"
  by (induction l) auto

lemma splitAtLF_line: "LF \<notin> set l \<Longrightarrow> splitAtLF (l @ LF # rest) = l # splitAtLF rest"
  by (induction l) auto

lemma splitAtLF_join:
  "ls \<noteq> [] \<Longrightarrow> \<forall>l\<in>set ls. LF \<notin> set l \<Longrightarrow> splitAtLF (joinLines ls) = ls"
  by (induction ls rule: joinLines.induct) (simp_all add: splitAtLF_no_LF splitAtLF_line)

lemma LF_lines_of_clean:
  "keptLines (splitLines s) \<noteq> [] \<Longrightarrow>
   splitAtLF (cleanRedundantEmptyLines s) = keptLines (splitLines s)"
  unfolding clean_keptLines by (rule splitAtLF_join) (auto dest: keptLines_LF_free)

lemma wellSpaced_LF_lines_of_clean:
  "keptLines (splitLines s) \<noteq> [] \<Longrightarrow> wellSpaced False (splitAtLF (cleanRedundantEmptyLines s))"
  by (simp add: LF_lines_of_clean keptLines_keepRec keepRec_wellSpaced)

lemma no_blank_run_LF:
  "Suc i < length (splitAtLF (cleanRedundantEmptyLines s)) \<Longrightarrow>
   significant (splitAtLF (cleanRedundantEmptyLines s) ! i)
     \<or> significant (splitAtLF (cleanRedundantEmptyLines s) ! Suc i)"
proof (cases "keptLines (splitLines s) = []")
  case True
  assume "Suc i < length (splitAtLF (cleanRedundantEmptyLines s))"
  with True show ?thesis by (simp add: clean_empty)
next
  case False
  assume i: "Suc i < length (splitAtLF (cleanRedundantEmptyLines s))"
  from wellSpaced_adjacent[OF wellSpaced_LF_lines_of_clean[OF False] i] show ?thesis .
qed

lemma no_leading_blank_LF:
  assumes "cleanRedundantEmptyLines s \<noteq> []"
  shows "significant (hd (splitAtLF (cleanRedundantEmptyLines s)))"
proof -
  from assms have kept: "keptLines (splitLines s) \<noteq> []"
    by (auto simp: clean_keptLines)
  have "splitAtLF (cleanRedundantEmptyLines s) \<noteq> []"
    by (simp add: LF_lines_of_clean[OF kept] kept)
  with wellSpaced_LF_lines_of_clean[OF kept] show ?thesis
    by (rule wellSpaced_hd)
qed

lemma clean_example:
  "cleanRedundantEmptyLines [CHR ''A'', LF, LF, LF, LF, CHR ''B''] = [CHR ''A'', LF, LF, CHR ''B'']"
  by (simp add: cleanRedundantEmptyLines_def Let_def flagAt_def Boolean_def trim_def isWhiteSpace_def)

text \<open>
  Claim C6. The normalizer keeps exactly the lines that are significant or whose
  immediately preceding line is significant. Consequently the lines of its output never
  hold two blank lines in a row, and the output is empty or begins with a significant
  line; both hold whether the output is read with the normalizer's own line splitter or
  with LF alone as the separator. \<^verbatim>\<open>"A\n\n\n\nB"\<close> becomes \<^verbatim>\<open>"A\n\nB"\<close>.
\<close>

theorem normalizer_keeps_lines_after_significant:
  "cleanRedundantEmptyLines s =
     joinLines (nths (splitLines s)
       {i. significant (splitLines s ! i) \<or> (0 < i \<and> significant (splitLines s ! (i - 1)))})
   \<and> (\<forall>i. Suc i < length (splitLines (cleanRedundantEmptyLines s)) \<longrightarrow>
          significant (splitLines (cleanRedundantEmptyLines s) ! i)
          \<or> significant (splitLines (cleanRedundantEmptyLines s) ! Suc i))
   \<and> (cleanRedundantEmptyLines s \<noteq> [] \<longrightarrow>
          significant (hd (splitLines (cleanRedundantEmptyLines s))))
   \<and> (\<forall>i. Suc i < length (splitAtLF (cleanRedundantEmptyLines s)) \<longrightarrow>
          significant (splitAtLF (cleanRedundantEmptyLines s) ! i)
          \<or> significant (splitAtLF (cleanRedundantEmptyLines s) ! Suc i))
   \<and> (cleanRedundantEmptyLines s \<noteq> [] \<longrightarrow>
          significant (hd (splitAtLF (cleanRedundantEmptyLines s))))
   \<and> cleanRedundantEmptyLines [CHR ''A'', LF, LF, LF, LF, CHR ''B'']
        = [CHR ''A'', LF, LF, CHR ''B'']"
proof (intro conjI allI impI)
  show "cleanRedundantEmptyLines s =
     joinLines (nths (splitLines s)
       {i. significant (splitLines s ! i) \<or> (0 < i \<and> significant (splitLines s ! (i - 1)))})"
    by (simp only: clean_keptLines keptLines_nths)
next
  fix i
  assume i: "Suc i < length (splitLines (cleanRedundantEmptyLines s))"
  show "significant (splitLines (cleanRedundantEmptyLines s) ! i)
      \<or> significant (splitLines (cleanRedundantEmptyLines s) ! Suc i)"
  proof (cases "keptLines (splitLines s) = []")
    case True
    with i show ?thesis by (simp add: clean_empty)
  next
    case False
    from wellSpaced_adjacent[OF wellSpaced_lines_of_clean[OF False] i] show ?thesis .
  qed
next
  assume ne: "cleanRedundantEmptyLines s \<noteq> []"
  then have kept: "keptLines (splitLines s) \<noteq> []"
    by (auto simp: clean_keptLines)
  have "splitLines (cleanRedundantEmptyLines s) \<noteq> []"
    by (simp add: lines_of_clean[OF kept] kept)
  with wellSpaced_lines_of_clean[OF kept]
  show "significant (hd (splitLines (cleanRedundantEmptyLines s)))"
    by (rule wellSpaced_hd)
next
  fix i
  assume "Suc i < length (splitAtLF (cleanRedundantEmptyLines s))"
  then show "significant (splitAtLF (cleanRedundantEmptyLines s) ! i)
      \<or> significant (splitAtLF (cleanRedundantEmptyLines s) ! Suc i)"
    by (rule no_blank_run_LF)
next
  assume "cleanRedundantEmptyLines s \<noteq> []"
  then show "significant (hd (splitAtLF (cleanRedundantEmptyLines s)))"
    by (rule no_leading_blank_LF)
next
  show "cleanRedundantEmptyLines [CHR ''A'', LF, LF, LF, LF, CHR ''B''] = [CHR ''A'', LF, LF, CHR ''B'']"
    by (rule clean_example)
qed

lemma clean_example_blank_runs:
  "cleanRedundantEmptyLines [LF, LF, CHR ''A'', LF, CHR '' '', LF, CR, LF, LF, CHR ''B'', LF, LF]
     = [CHR ''A'', LF, CHR '' '', LF, CHR ''B'', LF]"
  by (simp add: cleanRedundantEmptyLines_def Let_def flagAt_def Boolean_def trim_def isWhiteSpace_def)

theorem normalizer_keeps_lines_after_significant_witness:
  "Suc 1 < length (splitLines (cleanRedundantEmptyLines
       [LF, LF, CHR ''A'', LF, CHR '' '', LF, CR, LF, LF, CHR ''B'', LF, LF]))
   \<and> (significant (splitLines (cleanRedundantEmptyLines
         [LF, LF, CHR ''A'', LF, CHR '' '', LF, CR, LF, LF, CHR ''B'', LF, LF]) ! 1)
      \<or> significant (splitLines (cleanRedundantEmptyLines
         [LF, LF, CHR ''A'', LF, CHR '' '', LF, CR, LF, LF, CHR ''B'', LF, LF]) ! Suc 1))
   \<and> cleanRedundantEmptyLines
       [LF, LF, CHR ''A'', LF, CHR '' '', LF, CR, LF, LF, CHR ''B'', LF, LF] \<noteq> []
   \<and> significant (hd (splitLines (cleanRedundantEmptyLines
       [LF, LF, CHR ''A'', LF, CHR '' '', LF, CR, LF, LF, CHR ''B'', LF, LF])))"
proof -
  have len: "Suc 1 < length (splitLines (cleanRedundantEmptyLines
       [LF, LF, CHR ''A'', LF, CHR '' '', LF, CR, LF, LF, CHR ''B'', LF, LF]))"
    by (simp add: clean_example_blank_runs)
  have ne: "cleanRedundantEmptyLines
       [LF, LF, CHR ''A'', LF, CHR '' '', LF, CR, LF, LF, CHR ''B'', LF, LF] \<noteq> []"
    by (simp add: clean_example_blank_runs)
  from normalizer_keeps_lines_after_significant
    [of "[LF, LF, CHR ''A'', LF, CHR '' '', LF, CR, LF, LF, CHR ''B'', LF, LF]"] len ne
  show ?thesis by blast
qed

lemma second_pass_fixed_iff:
  "cleanRedundantEmptyLines (cleanRedundantEmptyLines s) = cleanRedundantEmptyLines s
   \<longleftrightarrow> (\<forall>l\<in>set (butlast (keptLines (splitLines s))). \<not> endsWithCR l)"
proof -
  have "cleanRedundantEmptyLines (cleanRedundantEmptyLines s) = cleanRedundantEmptyLines s
      \<longleftrightarrow> stripInner (keptLines (splitLines s)) = keptLines (splitLines s)"
    unfolding second_pass unfolding clean_keptLines[of s]
    using join_stripInner_eq[of "keptLines (splitLines s)"] by auto
  then show ?thesis
    by (simp only: stripInner_id_iff)
qed

lemma splitLines_nonempty: "splitLines s \<noteq> []"
  by (induction s rule: splitLines.induct) (auto split: list.splits)

lemma splitLines_chars: "l \<in> set (splitLines s) \<Longrightarrow> x \<in> set l \<Longrightarrow> x \<in> set s"
proof (induction s arbitrary: l rule: splitLines.induct)
  case 1
  then show ?case by simp
next
  case (2 c)
  then show ?case by (auto split: if_splits)
next
  case (3 c d cs)
  show ?case
  proof (cases "c = LF")
    case True
    with "3.prems" "3.IH"(1)[of l] show ?thesis by auto
  next
    case False
    show ?thesis
    proof (cases "c = CR \<and> d = LF")
      case True
      with False "3.prems" "3.IH"(2)[of l] show ?thesis by auto
    next
      case no: False
      obtain m ms where sp: "splitLines (d # cs) = m # ms"
        using splitLines_nonempty[of "d # cs"] by (cases "splitLines (d # cs)") auto
      from "3.prems"(1) False no sp have "l = c # m \<or> l \<in> set ms"
        by auto
      then show ?thesis
      proof
        assume "l = c # m"
        with "3.prems"(2) have "x = c \<or> x \<in> set m" by auto
        moreover have "x \<in> set m \<Longrightarrow> x \<in> set (d # cs)"
          using "3.IH"(3)[OF False no, of m] sp by simp
        ultimately show ?thesis by auto
      next
        assume "l \<in> set ms"
        then have "x \<in> set (d # cs)"
          using "3.IH"(3)[OF False no, of l] sp "3.prems"(2) by simp
        then show ?thesis by simp
      qed
    qed
  qed
qed

lemma keptLines_without_CR:
  assumes "CR \<notin> set s" and "l \<in> set (butlast (keptLines (splitLines s)))"
  shows "\<not> endsWithCR l"
proof
  assume "endsWithCR l"
  then have "CR \<in> set l"
    by (auto simp: endsWithCR_def) (metis last_in_set)
  moreover from assms(2) have "l \<in> set (splitLines s)"
    using keepRec_subset[of False "splitLines s"]
    by (auto simp: keptLines_keepRec dest: in_set_butlastD)
  ultimately show False
    using assms(1) splitLines_chars[of l s CR] by auto
qed

text \<open>
  Claim C7, as amended. A second pass of the normalizer re-splits the output of the
  first, and the splitter takes a CR that stands before a line break as part of the
  break. So the normalizer is idempotent on \<open>s\<close> exactly when no line it keeps, other than
  the last one kept, ends in a carriage return; in particular it is on every input
  without carriage returns.
\<close>

theorem normalizer_idempotent_iff_no_kept_line_ends_in_CR:
  "(cleanRedundantEmptyLines (cleanRedundantEmptyLines s) = cleanRedundantEmptyLines s
     \<longleftrightarrow> (\<forall>l\<in>set (butlast (keptLines (splitLines s))). \<not> endsWithCR l))
   \<and> (CR \<notin> set s \<longrightarrow>
        cleanRedundantEmptyLines (cleanRedundantEmptyLines s) = cleanRedundantEmptyLines s)"
  using second_pass_fixed_iff[of s] keptLines_without_CR[of s] by blast

theorem normalizer_idempotent_witness:
  "cleanRedundantEmptyLines (cleanRedundantEmptyLines [CHR ''A'', LF, LF, LF, LF, CHR ''B''])
     = cleanRedundantEmptyLines [CHR ''A'', LF, LF, LF, LF, CHR ''B'']"
proof -
  have "\<forall>l\<in>set (butlast (keptLines (splitLines [CHR ''A'', LF, LF, LF, LF, CHR ''B'']))).
          \<not> endsWithCR l"
    by (simp add: keptLines_def Let_def flagAt_def Boolean_def trim_def isWhiteSpace_def
        endsWithCR_def)
  with normalizer_idempotent_iff_no_kept_line_ends_in_CR
    [of "[CHR ''A'', LF, LF, LF, LF, CHR ''B'']"]
  show ?thesis by blast
qed

text \<open>
  The claim as stated fails on \<^verbatim>\<open>"a\r\r\nb"\<close>: the first pass yields \<^verbatim>\<open>"a\r\nb"\<close>, the
  second \<^verbatim>\<open>"a\nb"\<close>.
\<close>

theorem normalizer_not_idempotent_counterexample:
  "cleanRedundantEmptyLines (cleanRedundantEmptyLines [CHR ''a'', CR, CR, LF, CHR ''b''])
     \<noteq> cleanRedundantEmptyLines [CHR ''a'', CR, CR, LF, CHR ''b'']"
  by (simp add: cleanRedundantEmptyLines_def Let_def flagAt_def Boolean_def trim_def isWhiteSpace_def)

section \<open>The pipeline\<close>

lemma bindE_Inr_iff: "bindE m f = Inr y \<longleftrightarrow> (\<exists>x. m = Inr x \<and> f x = Inr y)"
  by (cases m) (simp_all add: bindE_def)

lemma bindE_Inr [simp]: "bindE (Inr x) f = f x"
  by (simp add: bindE_def)

lemma bindE_Inl [simp]: "bindE (Inl e) f = Inl e"
  by (simp add: bindE_def)

text \<open>
  What a call that returns has gone through: the metadata were read, the working markup
  was extracted and rendered, and the fields of the result are these.
\<close>

lemma processHtml_Inr_D:
  assumes "processHtml env html arg b = Inr r"
  obtains docTitle docDescription doc0 mc rr docLeft processed where
    "readMetadata env html = Inr (docTitle, docDescription, doc0)"
    "workingMarkupOf env (parseOptions arg b) (inlineEmbedded env (parseOptions arg b) doc0)
       = Inr (mc, rr, docLeft)"
    "render env (parseOptions arg b) mc = Inr processed"
    "r = \<lparr>content = cleanRedundantEmptyLines processed,
          title = resultTitle rr docTitle,
          description = docDescription,
          links = harvestLinks env (baseUrl (parseOptions arg b))
                    (inlineEmbedded env (parseOptions arg b) doc0)\<rparr>"
  using assms
  by (auto simp: processHtml_def Let_def bindE_Inr_iff)

lemma processHtmlMinimal_Inr_D:
  assumes "processHtmlMinimal env html f b = Inr r"
  obtains docTitle docDescription doc0 mc rr docLeft processed where
    "readMetadata env html = Inr (docTitle, docDescription, doc0)"
    "extractMain env (cleanMinimal env (inlineEmbeddedMinimal env doc0)) None = Inr (mc, rr, docLeft)"
    "renderMinimal env (case f of None \<Rightarrow> Markdown | Some g \<Rightarrow> g) docLeft mc = Inr processed"
    "r = \<lparr>content = cleanRedundantEmptyLines processed,
          title = resultTitle rr docTitle,
          description = docDescription,
          links = List.map_filter (harvestLinkMinimal env b)
                    (selectAll isAnchorWithHref (inlineEmbeddedMinimal env doc0))\<rparr>"
  using assms
  by (auto simp: processHtmlMinimal_def Let_def bindE_Inr_iff)

lemma workingMarkup_Inr_D:
  assumes "workingMarkup env opts html = Inr w"
  obtains docTitle docDescription doc0 where
    "readMetadata env html = Inr (docTitle, docDescription, doc0)"
    "workingMarkupOf env opts (inlineEmbedded env opts doc0) = Inr w"
  using assms by (auto simp: workingMarkup_def bindE_Inr_iff)

lemma workingMarkupMinimal_Inr_D:
  assumes "workingMarkupMinimal env html = Inr w"
  obtains docTitle docDescription doc0 where
    "readMetadata env html = Inr (docTitle, docDescription, doc0)"
    "extractMain env (cleanMinimal env (inlineEmbeddedMinimal env doc0)) None = Inr w"
  using assms by (auto simp: workingMarkupMinimal_def bindE_Inr_iff)

lemma processHtml_links:
  "processHtml env html arg b = Inr r \<Longrightarrow>
   links r = harvestLinks env (baseUrl (parseOptions arg b)) (inlinedDocument env (parseOptions arg b) html)"
  by (erule processHtml_Inr_D) (simp add: inlinedDocument_def)

lemma processHtmlMinimal_links:
  "processHtmlMinimal env html f b = Inr r \<Longrightarrow>
   links r = List.map_filter (harvestLinkMinimal env b)
               (selectAll isAnchorWithHref (inlinedDocumentMinimal env html))"
  by (erule processHtmlMinimal_Inr_D) (simp add: inlinedDocumentMinimal_def)

text \<open>The text branch, and the markdown branch when the serializer throws.\<close>

lemma render_text: "formatOf opts = PlainText \<Longrightarrow> render env opts mc = plainText env mc"
  by (simp add: render_def)

lemma render_markdown_fallback:
  "formatOf opts = Markdown \<Longrightarrow> turndown env (EnhancedRules (baseUrl opts)) mc = Inl err \<Longrightarrow>
   render env opts mc = plainText env mc"
  by (simp add: render_def renderMarkdown_def Let_def)

lemma plainText_throws:
  "documentBody env (parseHTML env mc) = Inl e \<Longrightarrow> plainText env mc = Inl e"
  by (simp add: plainText_def)

lemma renderMinimal_fallback:
  "turndown env MinimalRules mc = Inl err \<Longrightarrow>
   renderMinimal env Markdown doc mc
     = bindE (documentBody env doc) (\<lambda>(body, doc'). Inr (trim (textContent body)))"
  by (simp add: renderMinimal_def)

section \<open>Exceptions of the call\<close>

text \<open>
  The text branch reads the body of the document it parses from the working markup.
  Whatever the collaborators are, an exception of that read ends the call.
\<close>

lemma text_branch_exception_reaches_caller:
  assumes "workingMarkup env (parseOptions arg b) html = Inr (mc, rr, docLeft)"
    and "formatOf (parseOptions arg b) = PlainText"
    and "documentBody env (parseHTML env mc) = Inl e"
  shows "processHtml env html arg b = Inl e"
proof -
  from assms(1) obtain t d doc0 where
    "readMetadata env html = Inr (t, d, doc0)"
    "workingMarkupOf env (parseOptions arg b) (inlineEmbedded env (parseOptions arg b) doc0)
       = Inr (mc, rr, docLeft)"
    by (rule workingMarkup_Inr_D)
  with assms(2,3) show ?thesis
    by (simp add: processHtml_def Let_def render_text plainText_throws)
qed

lemma text_branch_exception_reaches_caller_minimal:
  assumes "workingMarkupMinimal env html = Inr (mc, rr, docLeft)"
    and "documentBody env (parseHTML env mc) = Inl e"
  shows "processHtmlMinimal env html (Some PlainText) b = Inl e"
proof -
  from assms(1) obtain t d doc0 where
    "readMetadata env html = Inr (t, d, doc0)"
    "extractMain env (cleanMinimal env (inlineEmbeddedMinimal env doc0)) None = Inr (mc, rr, docLeft)"
    by (rule workingMarkupMinimal_Inr_D)
  with assms(2) show ?thesis
    by (simp add: processHtmlMinimal_def Let_def renderMinimal_def plainText_throws)
qed

text \<open>
  Claim C1: for every input and every format-or-options argument \<open>processHtml\<close> returns
  a record with a content string and never throws. The code does not do so. Both
  processors read \<^verbatim>\<open>parseHTML(mainContent).window.document.body\<close> in the text branch
  outside any \<^verbatim>\<open>try\<close> block, without the test on \<open>documentElement\<close> that guards the
  first parse. For the empty input the working markup is the empty string, its document
  has no root element, and the call with format \<^verbatim>\<open>'text'\<close> ends in the \<open>TypeError\<close> of the
  body getter, in the enhanced and in the minimal processor.
\<close>

theorem text_of_empty_input_throws:
  "processHtml sampleCollaborators [] (Some (Format PlainText)) None = Inl typeError
   \<and> processHtmlMinimal sampleCollaborators [] (Some PlainText) None = Inl typeError"
  by code_simp

section \<open>What the format decides\<close>

lemma inlineEmbedded_format [simp]:
  "inlineEmbedded env (opts\<lparr>format := f\<rparr>) doc = inlineEmbedded env opts doc"
  by (simp add: inlineEmbedded_def)

lemma workingMarkupOf_format [simp]:
  "workingMarkupOf env (opts\<lparr>format := f\<rparr>) doc = workingMarkupOf env opts doc"
  by (simp add: workingMarkupOf_def cleanAfter_def)

lemma parseOptions_Options: "parseOptions (Some (Options opts)) b = opts"
  by simp

lemma parseOptions_Format:
  "parseOptions (Some (Format f)) b = (formatOnly Markdown b)\<lparr>format := Some f\<rparr>"
  by (simp add: formatOnly_def)










section \<open>Links\<close>

lemma map_filter_filter:
  "(\<And>x. x \<in> set xs \<Longrightarrow> \<not> P x \<Longrightarrow> f x = None) \<Longrightarrow>
   List.map_filter f (filter P xs) = List.map_filter f xs"
  by (induction xs) (auto simp: List.map_filter_simps split: option.splits)

lemma harvestLink_rejected: "rejectedHref x \<Longrightarrow> harvestLink env base x = None"
  by (auto simp: rejectedHref_def harvestLink_def split: option.splits)

lemma harvestLinkMinimal_empty: "emptyHref x \<Longrightarrow> harvestLinkMinimal env base x = None"
  by (auto simp: emptyHref_def harvestLinkMinimal_def split: option.splits)

lemma javascript_rejected:
  "getAttribute x ''href'' = Some ''javascript:alert(1)'' \<Longrightarrow> rejectedHref x"
  by (simp add: rejectedHref_def startsWith_def)

lemma harvestLink_accepted:
  "getAttribute x ''href'' = Some href \<Longrightarrow> \<not> rejectedHref x \<Longrightarrow>
   harvestLink env base x =
     (case base of
        None \<Rightarrow> Some (linkText x, href)
      | Some bs \<Rightarrow>
          if bs = [] then Some (linkText x, href)
          else (case newURL env href bs of Inl e \<Rightarrow> None | Inr url \<Rightarrow> Some (linkText x, url)))"
  by (cases base) (auto simp: rejectedHref_def harvestLink_def)

lemma harvestLinkMinimal_accepted:
  "getAttribute x ''href'' = Some href \<Longrightarrow> \<not> emptyHref x \<Longrightarrow>
   harvestLinkMinimal env base x =
     (case base of
        None \<Rightarrow> Some (linkText x, href)
      | Some bs \<Rightarrow>
          if bs = [] then Some (linkText x, href)
          else (case newURL env href bs of Inl e \<Rightarrow> None | Inr url \<Rightarrow> Some (linkText x, url)))"
  by (cases base) (auto simp: emptyHref_def harvestLinkMinimal_def)

lemma count_list_map_filter:
  "count_list (List.map_filter f xs) p = length (filter (\<lambda>x. f x = Some p) xs)"
  by (induction xs) (auto simp: List.map_filter_simps split: option.splits)

text \<open>
  In the enhanced processor an anchor whose \<open>href\<close> is empty or begins with
  \<^verbatim>\<open>javascript:\<close> or \<^verbatim>\<open>file:\<close> yields no entry: the links of a call that returns are the
  entries of the other anchors.
\<close>

lemma enhanced_links_skip_rejected_anchors:
  assumes "processHtml env html arg b = Inr r"
  shows "links r = List.map_filter (harvestLink env (baseUrl (parseOptions arg b)))
                     (filter (\<lambda>x. \<not> rejectedHref x)
                        (selectAll isAnchorWithHref (inlinedDocument env (parseOptions arg b) html)))"
proof -
  have "List.map_filter (harvestLink env base) (filter (\<lambda>x. \<not> rejectedHref x) xs)
      = List.map_filter (harvestLink env base) xs" for base xs
    by (rule map_filter_filter) (simp add: harvestLink_rejected)
  with processHtml_links[OF assms] show ?thesis
    by (simp add: harvestLinks_def)
qed

text \<open>The minimal processor tests the \<open>href\<close> for emptiness only.\<close>

lemma minimal_link_without_base:
  "getAttribute x ''href'' = Some href \<Longrightarrow> href \<noteq> [] \<Longrightarrow>
   harvestLinkMinimal env None x = Some (linkText x, href)"
  by (simp add: harvestLinkMinimal_def)

lemma sample_run_link:
  "processHtml sampleCollaborators
     ''<html><head><title>T</title></head><body><a href=\"/x\">Link</a></body></html>''
     (Some (Format Markdown)) (Some ''https://example.com'')
   = Inr \<lparr>content = ''[Link](https://example.com/x)'', title = ''T'', description = [],
          links = [(''Link'', ''https://example.com/x'')]\<rparr>"
  by code_simp

lemma sample_run_link_minimal:
  "processHtmlMinimal sampleCollaborators
     ''<html><head><title>T</title></head><body><a href=\"/x\">Link</a></body></html>''
     (Some Markdown) (Some ''https://example.com'')
   = Inr \<lparr>content = ''[Link](/x)'', title = ''T'', description = [],
          links = [(''Link'', ''https://example.com/x'')]\<rparr>"
  by code_simp

lemma sample_run_duplicates:
  "processHtml sampleCollaborators ''<a href=\"/x\">Link</a><a href=\"/x\">Link</a>''
     (Some (Format Markdown)) (Some ''https://example.com'')
   = Inr \<lparr>content = [], title = [], description = [],
          links = [(''Link'', ''https://example.com/x''), (''Link'', ''https://example.com/x'')]\<rparr>"
  by code_simp

lemma sample_run_duplicates_minimal:
  "processHtmlMinimal sampleCollaborators ''<a href=\"/x\">Link</a><a href=\"/x\">Link</a>''
     (Some Markdown) (Some ''https://example.com'')
   = Inr \<lparr>content = [], title = [], description = [],
          links = [(''Link'', ''https://example.com/x''), (''Link'', ''https://example.com/x'')]\<rparr>"
  by code_simp

text \<open>
  Claim C2: no entry of the links comes from an anchor whose \<open>href\<close> is empty or begins
  with \<^verbatim>\<open>javascript:\<close> or \<^verbatim>\<open>file:\<close>. The enhanced processor has the test on the scheme;
  the callback of the minimal processor lacks it. On the input
  \<^verbatim>\<open><a href="javascript:alert(1)">Go</a>\<close> with format \<^verbatim>\<open>'markdown'\<close> and no base URL both
  calls return; the links of the enhanced processor are empty, those of the minimal
  processor hold the entry of the anchor.
\<close>

theorem minimal_keeps_javascript_link:
  "map_sum id links
     (processHtml sampleCollaborators ''<a href=\"javascript:alert(1)\">Go</a>''
        (Some (Format Markdown)) None)
     = Inr []
   \<and> map_sum id links
     (processHtmlMinimal sampleCollaborators ''<a href=\"javascript:alert(1)\">Go</a>''
        (Some Markdown) None)
     = Inr [(''Go'', ''javascript:alert(1)'')]"
  by code_simp

text \<open>
  Claim C3. The links are the results of the link callback over the anchors with an
  \<open>href\<close>, in document order. For an anchor whose \<open>href\<close> is not rejected: with a base URL
  (a non-empty string) the entry holds the \<open>href\<close> resolved against it, and there is no
  entry when the resolution throws; without one (absent, or the empty string, which is
  falsy) the entry holds the \<open>href\<close> as it stands. When the only anchor of the document is
  \<^verbatim>\<open><a href="/x">Link</a>\<close> and the base URL is \<^verbatim>\<open>https://example.com\<close>, the links are
  exactly \<^verbatim>\<open>("Link", "https://example.com/x")\<close>. Both processors.
\<close>

theorem link_url_resolved_or_dropped:
  assumes "processHtml env html arg b = Inr r" and "processHtmlMinimal env html f b' = Inr r'"
  shows "links r = List.map_filter (harvestLink env (baseUrl (parseOptions arg b)))
                     (selectAll isAnchorWithHref (inlinedDocument env (parseOptions arg b) html))
       \<and> links r' = List.map_filter (harvestLinkMinimal env b')
                     (selectAll isAnchorWithHref (inlinedDocumentMinimal env html))
       \<and> (\<forall>x href base url.
             getAttribute x ''href'' = Some href \<and> \<not> rejectedHref x \<and> base \<noteq> []
               \<and> newURL env href base = Inr url \<longrightarrow>
             harvestLink env (Some base) x = Some (linkText x, url)
               \<and> harvestLinkMinimal env (Some base) x = Some (linkText x, url))
       \<and> (\<forall>x href base e.
             getAttribute x ''href'' = Some href \<and> \<not> rejectedHref x \<and> base \<noteq> []
               \<and> newURL env href base = Inl e \<longrightarrow>
             harvestLink env (Some base) x = None \<and> harvestLinkMinimal env (Some base) x = None)
       \<and> (\<forall>x href base.
             getAttribute x ''href'' = Some href \<and> \<not> rejectedHref x \<and> \<not> truthy base \<longrightarrow>
             harvestLink env base x = Some (linkText x, href)
               \<and> harvestLinkMinimal env base x = Some (linkText x, href))
       \<and> (selectAll isAnchorWithHref (inlinedDocument env (parseOptions arg b) html)
              = [Element ''a'' [(''href'', ''/x'')] [TextNode ''Link'']]
            \<and> baseUrl (parseOptions arg b) = Some ''https://example.com''
            \<and> newURL env ''/x'' ''https://example.com'' = Inr ''https://example.com/x'' \<longrightarrow>
          links r = [(''Link'', ''https://example.com/x'')])
       \<and> (selectAll isAnchorWithHref (inlinedDocumentMinimal env html)
              = [Element ''a'' [(''href'', ''/x'')] [TextNode ''Link'']]
            \<and> b' = Some ''https://example.com''
            \<and> newURL env ''/x'' ''https://example.com'' = Inr ''https://example.com/x'' \<longrightarrow>
          links r' = [(''Link'', ''https://example.com/x'')])"
proof -
  have lt: "linkText (Element ''a'' [(''href'', ''/x'')] [TextNode ''Link'']) = ''Link''"
    by (simp add: linkText_def collapseWhitespace_def trim_def isWhiteSpace_def)
  have l: "links r = List.map_filter (harvestLink env (baseUrl (parseOptions arg b)))
                     (selectAll isAnchorWithHref (inlinedDocument env (parseOptions arg b) html))"
    using processHtml_links[OF assms(1)] by (simp add: harvestLinks_def)
  have m: "links r' = List.map_filter (harvestLinkMinimal env b')
                     (selectAll isAnchorWithHref (inlinedDocumentMinimal env html))"
    by (rule processHtmlMinimal_links[OF assms(2)])
  have ne: "\<not> emptyHref x" if "\<not> rejectedHref x" for x
    using that by (auto simp: emptyHref_def rejectedHref_def split: option.splits)
  have ok: "harvestLink env (Some base) x = Some (linkText x, url)
      \<and> harvestLinkMinimal env (Some base) x = Some (linkText x, url)"
    if "getAttribute x ''href'' = Some href" "\<not> rejectedHref x" "base \<noteq> []"
      "newURL env href base = Inr url" for x href base url
    using that by (simp add: harvestLink_accepted harvestLinkMinimal_accepted ne)
  have drop: "harvestLink env (Some base) x = None \<and> harvestLinkMinimal env (Some base) x = None"
    if "getAttribute x ''href'' = Some href" "\<not> rejectedHref x" "base \<noteq> []"
      "newURL env href base = Inl e" for x href base e
    using that by (simp add: harvestLink_accepted harvestLinkMinimal_accepted ne)
  have raw: "harvestLink env base x = Some (linkText x, href)
      \<and> harvestLinkMinimal env base x = Some (linkText x, href)"
    if "getAttribute x ''href'' = Some href" "\<not> rejectedHref x" "\<not> truthy base" for x href base
    using that by (cases base) (simp_all add: harvestLink_accepted harvestLinkMinimal_accepted ne)
  have href: "getAttribute (Element ''a'' [(''href'', ''/x'')] [TextNode ''Link'']) ''href'' = Some ''/x''"
    by (simp add: getAttribute_def)
  have acc: "\<not> rejectedHref (Element ''a'' [(''href'', ''/x'')] [TextNode ''Link''])"
    by (simp add: rejectedHref_def href startsWith_def)
  have ex1: "links r = [(''Link'', ''https://example.com/x'')]"
    if "selectAll isAnchorWithHref (inlinedDocument env (parseOptions arg b) html)
              = [Element ''a'' [(''href'', ''/x'')] [TextNode ''Link'']]"
       "baseUrl (parseOptions arg b) = Some ''https://example.com''"
       "newURL env ''/x'' ''https://example.com'' = Inr ''https://example.com/x''"
    using that ok[OF href acc _ that(3)] by (simp add: l List.map_filter_simps lt)
  have ex2: "links r' = [(''Link'', ''https://example.com/x'')]"
    if "selectAll isAnchorWithHref (inlinedDocumentMinimal env html)
              = [Element ''a'' [(''href'', ''/x'')] [TextNode ''Link'']]"
       "b' = Some ''https://example.com''"
       "newURL env ''/x'' ''https://example.com'' = Inr ''https://example.com/x''"
    using that ok[OF href acc _ that(3)] by (simp add: m List.map_filter_simps lt)
  from l m ok drop raw ex1 ex2 show ?thesis by blast
qed



theorem link_url_resolved_or_dropped_witness:
  "selectAll isAnchorWithHref
      (inlinedDocument sampleCollaborators
         (parseOptions (Some (Format Markdown)) (Some ''https://example.com''))
         ''<html><head><title>T</title></head><body><a href=\"/x\">Link</a></body></html>'')
     = [Element ''a'' [(''href'', ''/x'')] [TextNode ''Link'']]
   \<and> baseUrl (parseOptions (Some (Format Markdown)) (Some ''https://example.com''))
       = Some ''https://example.com''
   \<and> newURL sampleCollaborators ''/x'' ''https://example.com'' = Inr ''https://example.com/x''
   \<and> links \<lparr>content = ''[Link](https://example.com/x)'', title = ''T'', description = [],
              links = [(''Link'', ''https://example.com/x'')]\<rparr>
       = [(''Link'', ''https://example.com/x'')]"
proof -
  have a: "selectAll isAnchorWithHref
      (inlinedDocument sampleCollaborators
         (parseOptions (Some (Format Markdown)) (Some ''https://example.com''))
         ''<html><head><title>T</title></head><body><a href=\"/x\">Link</a></body></html>'')
     = [Element ''a'' [(''href'', ''/x'')] [TextNode ''Link'']]"
    by code_simp
  have b: "baseUrl (parseOptions (Some (Format Markdown)) (Some ''https://example.com''))
       = Some ''https://example.com''"
    by (simp add: formatOnly_def)
  have c: "newURL sampleCollaborators ''/x'' ''https://example.com'' = Inr ''https://example.com/x''"
    by code_simp
  from link_url_resolved_or_dropped[OF sample_run_link sample_run_link_minimal] a b c
  show ?thesis by blast
qed

text \<open>
  Claim C4, as amended. The links are not deduplicated: they are the callback results
  of the anchors in document order, and a pair occurs in the list as often as there are
  anchors whose callback result it is. Both processors.
\<close>

theorem links_keep_one_entry_per_anchor:
  assumes "processHtml env html arg b = Inr r" and "processHtmlMinimal env html f b' = Inr r'"
  shows "links r = List.map_filter (harvestLink env (baseUrl (parseOptions arg b)))
                     (selectAll isAnchorWithHref (inlinedDocument env (parseOptions arg b) html))
       \<and> count_list (links r) p
           = length (filter (\<lambda>x. harvestLink env (baseUrl (parseOptions arg b)) x = Some p)
               (selectAll isAnchorWithHref (inlinedDocument env (parseOptions arg b) html)))
       \<and> links r' = List.map_filter (harvestLinkMinimal env b')
                     (selectAll isAnchorWithHref (inlinedDocumentMinimal env html))
       \<and> count_list (links r') p
           = length (filter (\<lambda>x. harvestLinkMinimal env b' x = Some p)
               (selectAll isAnchorWithHref (inlinedDocumentMinimal env html)))"
  using processHtml_links[OF assms(1)] processHtmlMinimal_links[OF assms(2)]
  by (simp add: harvestLinks_def count_list_map_filter)

theorem links_keep_one_entry_per_anchor_witness:
  "length (filter (\<lambda>x. harvestLink sampleCollaborators
                (baseUrl (parseOptions (Some (Format Markdown)) (Some ''https://example.com''))) x
              = Some (''Link'', ''https://example.com/x''))
      (selectAll isAnchorWithHref
         (inlinedDocument sampleCollaborators
            (parseOptions (Some (Format Markdown)) (Some ''https://example.com''))
            ''<a href=\"/x\">Link</a><a href=\"/x\">Link</a>'')))
   = 2"
  using links_keep_one_entry_per_anchor[OF sample_run_duplicates sample_run_duplicates_minimal,
      of "(''Link'', ''https://example.com/x'')"]
  by simp

text \<open>
  The claim as stated fails on a document with the same anchor twice: the call returns,
  and its links are not distinct.
\<close>

theorem links_not_deduplicated_counterexample:
  "map_sum id (\<lambda>r. distinct (links r))
     (processHtml sampleCollaborators ''<a href=\"/x\">Link</a><a href=\"/x\">Link</a>''
        (Some (Format Markdown)) (Some ''https://example.com''))
   = Inr False"
  by (simp add: sample_run_duplicates)


section \<open>Table preparation\<close>




section \<open>The fallback of the markdown branch\<close>

text \<open>
  When the serializer throws, the enhanced processor reads the body of the document it
  parses from the working markup, the minimal processor the body of the cleaned
  document. An exception of that read ends the call; otherwise the content is the
  normalized, trimmed text of that body.
\<close>

lemma fallback_exception_reaches_caller:
  assumes "workingMarkup env (parseOptions arg b) html = Inr (mc, rr, docLeft)"
    and "formatOf (parseOptions arg b) = Markdown"
    and "turndown env (EnhancedRules (baseUrl (parseOptions arg b))) mc = Inl err"
    and "documentBody env (parseHTML env mc) = Inl e"
  shows "processHtml env html arg b = Inl e"
proof -
  from assms(1) obtain t d doc0 where
    "readMetadata env html = Inr (t, d, doc0)"
    "workingMarkupOf env (parseOptions arg b) (inlineEmbedded env (parseOptions arg b) doc0)
       = Inr (mc, rr, docLeft)"
    by (rule workingMarkup_Inr_D)
  with assms(2,3,4) show ?thesis
    by (simp add: processHtml_def Let_def render_markdown_fallback plainText_throws)
qed

lemma fallback_content:
  assumes "workingMarkup env (parseOptions arg b) html = Inr (mc, rr, docLeft)"
    and "formatOf (parseOptions arg b) = Markdown"
    and "turndown env (EnhancedRules (baseUrl (parseOptions arg b))) mc = Inl err"
    and "documentBody env (parseHTML env mc) = Inr (body, doc')"
  shows "map_sum id content (processHtml env html arg b)
         = Inr (cleanRedundantEmptyLines (trim (textContent body)))"
proof -
  from assms(1) obtain t d doc0 where
    "readMetadata env html = Inr (t, d, doc0)"
    "workingMarkupOf env (parseOptions arg b) (inlineEmbedded env (parseOptions arg b) doc0)
       = Inr (mc, rr, docLeft)"
    by (rule workingMarkup_Inr_D)
  with assms(2,3,4) show ?thesis
    by (simp add: processHtml_def Let_def render_markdown_fallback plainText_def)
qed

lemma fallback_content_minimal:
  assumes "workingMarkupMinimal env html = Inr (mc, rr, docLeft)"
    and "turndown env MinimalRules mc = Inl err"
    and "documentBody env docLeft = Inr (body, doc')"
  shows "map_sum id content (processHtmlMinimal env html (Some Markdown) b)
         = Inr (cleanRedundantEmptyLines (trim (textContent body)))"
proof -
  from assms(1) obtain t d doc0 where
    "readMetadata env html = Inr (t, d, doc0)"
    "extractMain env (cleanMinimal env (inlineEmbeddedMinimal env doc0)) None = Inr (mc, rr, docLeft)"
    by (rule workingMarkupMinimal_Inr_D)
  with assms(2,3) show ?thesis
    by (simp add: processHtmlMinimal_def Let_def renderMinimal_def)
qed

text \<open>
  Claim C9: when the markdown serializer throws, \<open>processHtml\<close> still returns, and its
  content is the trimmed plain text of the working markup. The \<^verbatim>\<open>catch\<close> block of the
  enhanced processor attempts this: it parses the working markup again and reads the
  text of \<^verbatim>\<open>document.body\<close>, but outside any \<^verbatim>\<open>try\<close> block and without a test on
  \<open>documentElement\<close>. With a serializer that throws, the call on the empty input ends in
  the \<open>TypeError\<close> of the body getter; and on a page whose body is \<^verbatim>\<open><p>Hello</p>\<close> the
  body read is the element the getter has just made for the fragment, so the content is
  empty and not \<^verbatim>\<open>Hello\<close>.
\<close>

theorem markdown_fallback_throws_or_loses_text:
  "processHtml failingTurndown [] (Some (Format Markdown)) None = Inl typeError
   \<and> map_sum id content
       (processHtml failingTurndown ''<html><head></head><body><p>Hello</p></body></html>''
          (Some (Format Markdown)) None)
     = Inr []"
  by code_simp

section \<open>The text of a paragraph beside a script\<close>

text \<open>
  Claim C8: for the input \<^verbatim>\<open><p>Hello</p><script>evil()</script>\<close> and format \<^verbatim>\<open>'text'\<close> the
  content is exactly \<^verbatim>\<open>Hello\<close>. The code does not return it. The parser makes \<open>p\<close> the
  root element of the document; the body getter inserts a new, empty \<open>body\<close> into it,
  so the working markup is the empty string; the text branch parses that into a
  document without a root element and reads its body: the call ends in a \<open>TypeError\<close>,
  in the enhanced and in the minimal processor.
\<close>

theorem hello_text_call_throws:
  "processHtml sampleCollaborators ''<p>Hello</p><script>evil()</script>''
       (Some (Format PlainText)) None
     = Inl typeError
   \<and> processHtmlMinimal sampleCollaborators ''<p>Hello</p><script>evil()</script>''
       (Some PlainText) None
     = Inl typeError"
  by code_simp


end
